theory Spec2Isabelle
  imports Main "HOL-Library.Char_ord" "HOL-Library.List_Lexorder"
begin

section \<open>Reference kinds and test descriptors\<close>

text \<open>
  \<open>REFERENCE_TYPE\<close> is a tuple of nine names whose attributes are their indices; the
  model keeps the nine names as constructors, in the tuple's order.
\<close>

datatype ref_type =
  MODULE | CLASS | QUALIFIED_CLASS | MODULE_CLASS | PACKAGE | MODULE_PACKAGE
  | FILE_PATH | INTEGRATION | SUITE

text \<open>
  \<open>TestInfo\<close> is a namedtuple of four fields. \<open>module_name\<close>, \<open>integrated_name\<close> and
  \<open>filters\<close> may be Python's \<open>None\<close>; \<open>filters\<close> is otherwise a set of class names.
\<close>

record TestInfo =
  rel_config :: string
  "module_name" :: "string option"
  integrated_name :: "string option"
  filters :: "string set option"

section \<open>Strings\<close>

text \<open>\<open>s.startswith(p)\<close>, \<open>s.endswith(p)\<close> and \<open>sub in s\<close> on byte strings.\<close>

definition startswith :: "string \<Rightarrow> string \<Rightarrow> bool" where
  "startswith s p = (take (length p) s = p)"

definition endswith :: "string \<Rightarrow> string \<Rightarrow> bool" where
  "endswith s p = (length p \<le> length s \<and> drop (length s - length p) s = p)"

fun str_contains :: "string \<Rightarrow> string \<Rightarrow> bool" where
  "str_contains [] sub = (sub = [])"
| "str_contains (c # cs) sub = (startswith (c # cs) sub \<or> str_contains cs sub)"

text \<open>Whitespace as \<open>str.strip()\<close> and the pattern \<open>\s\<close> read it on byte strings.\<close>

definition is_space :: "char \<Rightarrow> bool" where
  "is_space c = (c \<in> {CHR '' '', CHR 0x09, CHR 0x0A, CHR 0x0B, CHR 0x0C, CHR 0x0D})"

definition strip_chars :: "('a \<Rightarrow> bool) \<Rightarrow> 'a list \<Rightarrow> 'a list" where
  "strip_chars P s = rev (dropWhile P (rev (dropWhile P s)))"

definition rstrip_chars :: "(char \<Rightarrow> bool) \<Rightarrow> string \<Rightarrow> string" where
  "rstrip_chars P s = rev (dropWhile P (rev s))"

text \<open>\<open>s.split(c)\<close> for a one-character separator: never an empty list.\<close>

fun split_on :: "char \<Rightarrow> string \<Rightarrow> string list" where
  "split_on c [] = [[]]"
| "split_on c (x # xs) =
     (if x = c then [] # split_on c xs
      else (case split_on c xs of [] \<Rightarrow> [[x]] | h # t \<Rightarrow> (x # h) # t))"

text \<open>\<open>sep.join(xs)\<close> and \<open>s.replace(a, b)\<close> for single characters.\<close>

fun str_join :: "string \<Rightarrow> string list \<Rightarrow> string" where
  "str_join sep [] = []"
| "str_join sep [x] = x"
| "str_join sep (x # y # ys) = x @ sep @ str_join sep (y # ys)"

definition replace_char :: "char \<Rightarrow> char \<Rightarrow> string \<Rightarrow> string" where
  "replace_char a b s = map (\<lambda>c. if c = a then b else c) s"

text \<open>Lower case of the ASCII letters, for the patterns compiled with \<open>re.I\<close>.\<close>

definition ascii_lower :: "char \<Rightarrow> char" where
  "ascii_lower c =
     (let n = (of_char c :: nat) in if 65 \<le> n \<and> n \<le> 90 then char_of (n + 32) else c)"

text \<open>Decimal digits: \<open>'%s' % i\<close> for a natural number, and \<open>int(s)\<close> on a line of input.\<close>

definition digit_char :: "nat \<Rightarrow> char" where
  "digit_char d = char_of (48 + d)"

fun str_of_nat :: "nat \<Rightarrow> string" where
  "str_of_nat n = (if n < 10 then [digit_char n] else str_of_nat (n div 10) @ [digit_char (n mod 10)])"

definition is_digit :: "char \<Rightarrow> bool" where
  "is_digit c = (48 \<le> (of_char c :: nat) \<and> (of_char c :: nat) \<le> 57)"

definition digits_value :: "string \<Rightarrow> nat" where
  "digits_value ds = foldl (\<lambda>acc c. 10 * acc + ((of_char c :: nat) - 48)) 0 ds"

text \<open>
  \<open>int(s)\<close> for a string, in base ten: whitespace is skipped at the start, after the
  sign and at the end; one sign is allowed; at least one digit must follow, and nothing
  but digits. Anything else is a \<open>ValueError\<close> (\<open>None\<close> here).
\<close>

definition py_int :: "string \<Rightarrow> int option" where
  "py_int s =
     (let t = dropWhile is_space s;
          neg = startswith t ''-'';
          u = dropWhile is_space
                (if startswith t ''-'' \<or> startswith t ''+'' then drop 1 t else t);
          ds = takeWhile is_digit u
      in if ds \<noteq> [] \<and> list_all is_space (dropWhile is_digit u)
         then Some (if neg then - int (digits_value ds) else int (digits_value ds))
         else None)"

text \<open>\<open>xs[i]\<close>: a negative index counts from the end; out of range is \<open>None\<close>.\<close>

definition py_index :: "'a list \<Rightarrow> int \<Rightarrow> 'a option" where
  "py_index xs i =
     (if 0 \<le> i \<and> i < int (length xs) then Some (xs ! nat i)
      else if i < 0 \<and> 0 \<le> int (length xs) + i then Some (xs ! nat (int (length xs) + i))
      else None)"

text \<open>
  Text read from an XML file. ElementTree gives an attribute as a byte string when it
  is ASCII and as a \<open>unicode\<close> string, a list of code points (as integers), otherwise.
  \<open>unicode.strip()\<close> removes every character that \<open>unicode.isspace\<close> accepts. As members
  of a set an ASCII \<open>unicode\<close> string and the byte string of the same characters are
  equal, which \<open>as_key\<close> makes literal.
\<close>

datatype py_text = Str string | Unicode "int list"

definition unicode_space :: "int \<Rightarrow> bool" where
  "unicode_space n =
     (n \<in> {9, 10, 11, 12, 13, 28, 29, 30, 31, 32, 133, 160, 5760, 6158, 8232, 8233, 8239,
            8287, 12288} \<or> (8192 \<le> n \<and> n \<le> 8202))"

fun code_points :: "py_text \<Rightarrow> int list" where
  "code_points (Str s) = map of_char s"
| "code_points (Unicode u) = u"

fun text_strip :: "py_text \<Rightarrow> py_text" where
  "text_strip (Str s) = Str (strip_chars is_space s)"
| "text_strip (Unicode u) = Unicode (strip_chars unicode_space u)"

text \<open>\<open>t[:-n]\<close>.\<close>

fun text_without_last :: "nat \<Rightarrow> py_text \<Rightarrow> py_text" where
  "text_without_last n (Str s) = Str (take (length s - n) s)"
| "text_without_last n (Unicode u) = Unicode (take (length u - n) u)"

fun as_key :: "py_text \<Rightarrow> py_text" where
  "as_key (Str s) = Str s"
| "as_key (Unicode u) = (if list_all (\<lambda>c. 0 \<le> c \<and> c < 128) u then Str (map char_of u) else Unicode u)"

section \<open>Paths (\<open>posixpath\<close>)\<close>

text \<open>The part of a path after its last slash, and the part up to and including it.\<close>

definition after_last_slash :: "string \<Rightarrow> string" where
  "after_last_slash p = rev (takeWhile (\<lambda>c. c \<noteq> CHR ''/'') (rev p))"

definition upto_last_slash :: "string \<Rightarrow> string" where
  "upto_last_slash p = take (length p - length (after_last_slash p)) p"

text \<open>
  \<open>os.path.split\<close>: the head loses its trailing slashes unless it consists of slashes
  only. \<open>os.path.dirname\<close> is the head.
\<close>

definition path_split :: "string \<Rightarrow> string \<times> string" where
  "path_split p =
     (let head = upto_last_slash p
      in (if head \<noteq> [] \<and> head \<noteq> replicate (length head) (CHR ''/'')
          then rstrip_chars (\<lambda>c. c = CHR ''/'') head else head,
          after_last_slash p))"

definition dirname :: "string \<Rightarrow> string" where
  "dirname p = fst (path_split p)"

text \<open>\<open>os.path.join(a, b)\<close> for two components.\<close>

definition path_join :: "string \<Rightarrow> string \<Rightarrow> string" where
  "path_join a b =
     (if startswith b ''/'' then b
      else if a = [] \<or> endswith a ''/'' then a @ b
      else a @ ''/'' @ b)"

text \<open>
  \<open>os.path.splitext\<close>: the extension starts at the last dot of the last component,
  provided some character before that dot in the component is not a dot.
\<close>

definition splitext :: "string \<Rightarrow> string \<times> string" where
  "splitext p =
     (let base = after_last_slash p;
          ext = rev (takeWhile (\<lambda>c. c \<noteq> CHR ''.'') (rev base));
          stem = take (length base - length ext - 1) base
      in if CHR ''.'' \<in> set base \<and> list_ex (\<lambda>c. c \<noteq> CHR ''.'') stem
         then (take (length p - length ext - 1) p, drop (length p - length ext - 1) p)
         else (p, []))"

text \<open>
  \<open>os.path.commonprefix\<close>: the longest common prefix, element by element. The library
  compares the least and the greatest member, whose common prefix is that of all.
\<close>

fun common_prefix2 :: "'a list \<Rightarrow> 'a list \<Rightarrow> 'a list" where
  "common_prefix2 (x # xs) (y # ys) = (if x = y then x # common_prefix2 xs ys else [])"
| "common_prefix2 _ _ = []"

fun commonprefix :: "'a list list \<Rightarrow> 'a list" where
  "commonprefix [] = []"
| "commonprefix (x # xs) = foldl common_prefix2 x xs"

text \<open>
  \<open>os.path.normpath\<close>: empty and dot components vanish, a double-dot component removes
  the component before it; exactly two leading slashes are kept, any other number of
  leading slashes is one.
\<close>

fun norm_comps :: "string list \<Rightarrow> bool \<Rightarrow> string list \<Rightarrow> string list" where
  "norm_comps new_comps initial [] = new_comps"
| "norm_comps new_comps initial (seg # segs) =
     (if seg = [] \<or> seg = ''.'' then norm_comps new_comps initial segs
      else if seg \<noteq> ''..'' \<or> (\<not> initial \<and> new_comps = [])
              \<or> (new_comps \<noteq> [] \<and> last new_comps = ''..'')
        then norm_comps (new_comps @ [seg]) initial segs
      else if new_comps \<noteq> [] then norm_comps (butlast new_comps) initial segs
      else norm_comps new_comps initial segs)"

definition normpath :: "string \<Rightarrow> string" where
  "normpath p =
     (if p = [] then ''.''
      else
        let initial_slashes =
              (if startswith p ''/'' then
                 (if startswith p ''//'' \<and> \<not> startswith p ''///'' then 2 else 1)
               else (0::nat));
            joined = str_join ''/'' (norm_comps [] (0 < initial_slashes) (split_on (CHR ''/'') p));
            res = replicate initial_slashes (CHR ''/'') @ joined
        in if res = [] then ''.'' else res)"

text \<open>\<open>os.path.abspath\<close>, given the working directory.\<close>

definition abspath :: "string \<Rightarrow> string \<Rightarrow> string" where
  "abspath cwd p = normpath (if startswith p ''/'' then p else path_join cwd p)"

text \<open>
  \<open>os.path.relpath(path, start)\<close>, given the working directory: \<open>None\<close> is the
  \<open>ValueError\<close> the library raises for an empty path.
\<close>

definition relpath :: "string \<Rightarrow> string \<Rightarrow> string \<Rightarrow> string option" where
  "relpath cwd p start =
     (if p = [] then None
      else
        let start_list = filter (\<lambda>x. x \<noteq> []) (split_on (CHR ''/'') (abspath cwd start));
            path_list = filter (\<lambda>x. x \<noteq> []) (split_on (CHR ''/'') (abspath cwd p));
            i = length (commonprefix [start_list, path_list]);
            rel_list = replicate (length start_list - i) ''..'' @ drop i path_list
        in (case rel_list of
              [] \<Rightarrow> Some ''.''
            | c # cs \<Rightarrow> Some (foldl path_join c cs)))"

section \<open>The three patterns\<close>

text \<open>
  \<open>APK_RE = ^[^/]+\.apk$\<close>, case-insensitive, used with \<open>match\<close>: a non-empty run
  without a slash, then \<open>.apk\<close>, at the end of the string or before one final newline.
  The text is read by its code points: 46, 97, 112, 107 are \<open>.apk\<close>, 47 is the slash and
  10 the newline; only the ASCII letters have another case.
\<close>

definition cp_lower :: "int \<Rightarrow> int" where
  "cp_lower n = (if 65 \<le> n \<and> n \<le> 90 then n + 32 else n)"

definition apk_core :: "int list \<Rightarrow> bool" where
  "apk_core v =
     (4 < length v \<and> map cp_lower (drop (length v - 4) v) = [46, 97, 112, 107]
        \<and> 47 \<notin> set (take (length v - 4) v))"

definition APK_RE_match :: "py_text \<Rightarrow> bool" where
  "APK_RE_match t =
     (apk_core (code_points t)
      \<or> (code_points t \<noteq> [] \<and> last (code_points t) = 10 \<and> apk_core (butlast (code_points t))))"

text \<open>
  \<open>INT_NAME_RE = ^.*\/res\/config\/(?P<int_name>.*).xml$\<close>, used with \<open>match\<close>. Both
  stars are greedy, so the group starts after the last \<open>/res/config/\<close> that leaves at
  least four characters ending in \<open>xml\<close>, and stops before the character in front of
  \<open>xml\<close> (the dot of the pattern is not escaped: it stands for any character). No dot
  of the pattern matches a newline; the dollar also matches before one final newline.
\<close>

definition int_name_tail :: "string \<Rightarrow> string option" where
  "int_name_tail r =
     (if 4 \<le> length r \<and> drop (length r - 3) r = ''xml'' then Some (take (length r - 4) r)
      else None)"

fun int_name_scan :: "string \<Rightarrow> string option" where
  "int_name_scan [] = None"
| "int_name_scan (c # cs) =
     (case int_name_scan cs of
        Some g \<Rightarrow> Some g
      | None \<Rightarrow>
          if startswith (c # cs) ''/res/config/'' then int_name_tail (drop 12 (c # cs))
          else None)"

definition INT_NAME_RE_match :: "string \<Rightarrow> string option" where
  "INT_NAME_RE_match s =
     (let body = (if endswith s [CHR 0x0A] then butlast s else s)
      in if CHR 0x0A \<in> set body then None else int_name_scan body)"

text \<open>
  \<open>PACKAGE_RE = \s*package\s+(?P<package>[^;]+)\s*;\s*\<close>, case-insensitive, used with
  \<open>match\<close> on one line. After the word, the text before the first semicolon must start
  with whitespace and hold at least two characters. The group is greedy: it is that
  text without its leading whitespace (trailing whitespace stays in the group), or,
  when the text is whitespace only, its last character.
\<close>

definition PACKAGE_RE_match :: "string \<Rightarrow> string option" where
  "PACKAGE_RE_match line =
     (let l = dropWhile is_space line;
          t = drop 7 l;
          u = takeWhile (\<lambda>c. c \<noteq> CHR '';'') t;
          b = dropWhile is_space u
      in if map ascii_lower (take 7 l) = ''package'' \<and> CHR '';'' \<in> set t
            \<and> (case u of [] \<Rightarrow> False | c # _ \<Rightarrow> is_space c)
         then (if b \<noteq> [] then Some b
               else if 2 \<le> length u then Some [last u] else None)
         else None)"

section \<open>Errors, results, console and environment\<close>

text \<open>
  The exceptions of the module and those of the library calls it makes. A result is a
  returned value, a raised exception, or no result at all (a loop that never ends).
\<close>

datatype error =
    ValueError string
  | TypeError string
  | IOError string
  | IndexError
  | KeyError string
  | EOFError
  | CalledProcessError string
  | ParseError string
  | TooManyTestsFoundError string
  | NoTestFoundError string
  | TestWithNoModuleError string
  | UnregisteredModuleError string
  | MissingPackageName string

datatype 'a result = Returns 'a | Raises error | Hangs

definition result_bind :: "'a result \<Rightarrow> ('a \<Rightarrow> 'b result) \<Rightarrow> 'b result" where
  "result_bind r f = (case r of Returns x \<Rightarrow> f x | Raises e \<Rightarrow> Raises e | Hangs \<Rightarrow> Hangs)"

text \<open>
  What the user sees and types: \<open>print\<close>, the prompt of \<open>raw_input\<close>, and the messages
  logged at warning and error level, in order; and the lines still waiting on standard
  input. Messages at debug and info level are left out.
\<close>

datatype event = Printed string | Prompted string | Warned string | Errored string

record console =
  stdin :: "string list"
  emitted :: "event list"

definition emit :: "event \<Rightarrow> console \<Rightarrow> console" where
  "emit e s = s\<lparr>emitted := emitted s @ [e]\<rparr>"

text \<open>
  \<open>raw_input(prompt)\<close> writes the prompt and takes the next line; with standard input
  at its end it raises \<open>EOFError\<close>.
\<close>

definition raw_input :: "string \<Rightarrow> console \<Rightarrow> string result \<times> console" where
  "raw_input prompt s =
     (case stdin s of
        [] \<Rightarrow> (Raises EOFError, emit (Prompted prompt) s)
      | l # ls \<Rightarrow> (Returns l, (emit (Prompted prompt) s)\<lparr>stdin := ls\<rparr>))"

text \<open>
  The operating system as the methods read it: the file-system predicates of
  \<open>os.path\<close>, the working directory, the lines of a file (\<open>None\<close> when it cannot be
  opened), the output of a shell command run by \<open>subprocess.check_output\<close> (\<open>None\<close> when
  it exits with an error), what \<open>ElementTree\<close> reads from an XML file, whether debug
  logging is on, and the order in which a set of strings is iterated.

  Reading an XML file fails with \<open>IOError\<close> when the file cannot be opened and with
  \<open>ParseError\<close> when it is not well-formed; otherwise the translator sees the \<open>value\<close>
  attributes of the \<open>option\<close> elements below the root, in document order, \<open>None\<close> for
  an element without the attribute.
\<close>

datatype xml_read = Unreadable | Malformed | Options "py_text option list"

record world =
  realpath :: "string \<Rightarrow> string"
  isdir :: "string \<Rightarrow> bool"
  isfile :: "string \<Rightarrow> bool"
  path_exists :: "string \<Rightarrow> bool"
  getcwd :: string
  file_lines :: "string \<Rightarrow> string list option"
  check_output :: "string \<Rightarrow> string option"
  option_values :: "string \<Rightarrow> xml_read"
  debug_enabled :: bool
  set_order :: "string set \<Rightarrow> string list"

text \<open>
  A record of \<open>module-info.json\<close>, with the two keys the translator reads, and the
  attributes of a constructed \<open>CLITranslator\<close>. The key \<open>path\<close> may be missing (\<open>None\<close>);
  \<open>installed\<close> is only tested for truth, so a missing key and an empty list are one
  case. The index is a dictionary: the list holds its items in iteration order. The
  names and paths of the index are taken to be ASCII, for which the \<open>unicode\<close> strings
  that \<open>json.load\<close> returns behave as the byte strings used here.
\<close>

record module_record =
  path :: "string list option"
  installed :: "string list"

record CLITranslator =
  root_dir :: string
  module_info :: "(string \<times> module_record) list"
  tf_dirs :: "string list"
  gtf_dirs :: "string list"

definition integration_dirs :: "CLITranslator \<Rightarrow> string list" where
  "integration_dirs self = tf_dirs self @ gtf_dirs self"

text \<open>Truth of an optional string: \<open>None\<close> and the empty string are false.\<close>

definition truthy :: "string option \<Rightarrow> bool" where
  "truthy v = (case v of None \<Rightarrow> False | Some s \<Rightarrow> s \<noteq> [])"

section \<open>Constants\<close>

definition RUN_CMD :: "string \<Rightarrow> string" where
  "RUN_CMD flags =
     ''atest_tradefed.sh run commandAndExit template/local_min --template:map test=atest ''
       @ flags"

definition MODULES_IN :: "string \<Rightarrow> string" where
  "MODULES_IN d = ''MODULES-IN-'' @ d"

definition MODULE_CONFIG :: string where
  "MODULE_CONFIG = ''AndroidTest.xml''"

text \<open>\<open>FIND_CMDS\<close>, each already applied to its two arguments.\<close>

definition FIND_CMD_CLASS :: "string \<Rightarrow> string \<Rightarrow> string" where
  "FIND_CMD_CLASS d n =
     ''find '' @ d @ '' -type d -name .git -prune -o -type f -name '' @ [CHR 0x27] @ n
       @ ''.java'' @ [CHR 0x27] @ '' -print''"

definition FIND_CMD_QUALIFIED_CLASS :: "string \<Rightarrow> string \<Rightarrow> string" where
  "FIND_CMD_QUALIFIED_CLASS d n =
     ''find '' @ d @ '' -type d -name .git -prune -o -wholename '' @ [CHR 0x27] @ ''*'' @ n
       @ ''.java'' @ [CHR 0x27] @ '' -print''"

definition FIND_CMD_INTEGRATION :: "string \<Rightarrow> string \<Rightarrow> string" where
  "FIND_CMD_INTEGRATION d n =
     ''find '' @ d @ '' -type d -name .git -prune -o -wholename '' @ [CHR 0x27] @ ''*'' @ n
       @ ''.xml'' @ [CHR 0x27] @ '' -print''"

section \<open>The classifier\<close>

text \<open>\<open>_get_test_reference_types\<close>: the candidate kinds of a reference, in trial order.\<close>

definition get_test_reference_types :: "string \<Rightarrow> ref_type list" where
  "get_test_reference_types ref =
     (if startswith ref ''.'' then [FILE_PATH]
      else if CHR ''/'' \<in> set ref then
        (if startswith ref ''/'' \<or> CHR ''.'' \<in> set ref then [FILE_PATH]
         else [FILE_PATH, INTEGRATION])
      else if CHR '':'' \<in> set ref then
        (if CHR ''.'' \<in> set ref then [MODULE_CLASS, MODULE_PACKAGE]
         else [MODULE_CLASS])
      else if CHR ''.'' \<in> set ref then [FILE_PATH, QUALIFIED_CLASS, PACKAGE]
      else [INTEGRATION, MODULE, CLASS])"

section \<open>Flattening by module\<close>

text \<open>
  \<open>itertools.groupby(xs, key)\<close> yields one group per maximal run of consecutive
  elements with equal keys, in order. A group is never empty.
\<close>

function groupby :: "('a \<Rightarrow> 'k) \<Rightarrow> 'a list \<Rightarrow> ('k \<times> 'a list) list" where
  "groupby key [] = []"
| "groupby key (x # xs) =
     (key x, x # takeWhile (\<lambda>y. key y = key x) xs)
       # groupby key (dropWhile (\<lambda>y. key y = key x) xs)"
  by pat_completeness auto
termination
  by (relation "measure (\<lambda>(key, xs). length xs)")
     (auto simp: length_dropWhile_le less_Suc_eq_le)

text \<open>
  The inner loop of \<open>_flatten_by_module\<close> over one group: \<open>rel_config\<close> is overwritten
  by every member visited, the filters are united, and the first member whose filters
  are \<open>None\<close> or empty sets the filters to \<open>None\<close> and leaves the loop. The source starts
  \<open>rel_config\<close> at \<open>None\<close>; as a group has a first member, the model is started with
  that member's value, which the first iteration writes anyway.
\<close>

fun flatten_group :: "string \<Rightarrow> string set \<Rightarrow> TestInfo list \<Rightarrow> string \<times> string set option" where
  "flatten_group rc fs [] = (rc, Some fs)"
| "flatten_group rc fs (t # ts) =
     (case filters t of
        None \<Rightarrow> (rel_config t, None)
      | Some f \<Rightarrow>
          if f = {} then (rel_config t, None)
          else flatten_group (rel_config t) (fs \<union> f) ts)"

fun flatten_groups :: "(string option \<times> TestInfo list) list \<Rightarrow> TestInfo list" where
  "flatten_groups [] = []"
| "flatten_groups ((None, g) # gs) = g @ flatten_groups gs"
| "flatten_groups ((Some m, g) # gs) =
     (case flatten_group (case g of [] \<Rightarrow> [] | t # _ \<Rightarrow> rel_config t) {} g of
        (rc, fs) \<Rightarrow>
          \<lparr>rel_config = rc, module_name = Some m, integrated_name = None, filters = fs\<rparr>)
       # flatten_groups gs"

definition flatten_by_module :: "TestInfo list \<Rightarrow> TestInfo list" where
  "flatten_by_module test_infos = flatten_groups (groupby module_name test_infos)"

section \<open>Helper methods\<close>

definition io_bind ::
  "'a result \<times> console \<Rightarrow> ('a \<Rightarrow> console \<Rightarrow> 'b result \<times> console) \<Rightarrow> 'b result \<times> console" where
  "io_bind m f =
     (case m of
        (Returns x, s) \<Rightarrow> f x s
      | (Raises e, s) \<Rightarrow> (Raises e, s)
      | (Hangs, s) \<Rightarrow> (Hangs, s))"

text \<open>\<open>'%s' % v\<close> for an optional string: \<open>None\<close> prints as its name.\<close>

definition py_str :: "string option \<Rightarrow> string" where
  "py_str v = (case v of None \<Rightarrow> ''None'' | Some s \<Rightarrow> s)"

text \<open>\<open>TestInfo.paramify\<close>; the result is \<open>None\<close> when it returns a missing module name.\<close>

definition paramify :: "world \<Rightarrow> TestInfo \<Rightarrow> string option" where
  "paramify w t =
     (if truthy (integrated_name t) then integrated_name t
      else (case filters t of
              None \<Rightarrow> module_name t
            | Some f \<Rightarrow>
                if f = {} then module_name t
                else Some (py_str (module_name t) @ '':'' @ str_join '','' (set_order w f))))"

definition is_equal_or_sub_dir :: "world \<Rightarrow> string \<Rightarrow> string \<Rightarrow> bool" where
  "is_equal_or_sub_dir w sub_dir parent_dir =
     (let parent = realpath w parent_dir; sub = realpath w sub_dir
      in if \<not> (isdir w sub \<and> isdir w parent) then False
         else commonprefix [sub, parent] = parent)"

text \<open>\<open>os.path.relpath\<close> as a result.\<close>

definition relpath_result :: "world \<Rightarrow> string \<Rightarrow> string \<Rightarrow> string result" where
  "relpath_result w p start =
     (case relpath (getcwd w) p start of
        None \<Rightarrow> Raises (ValueError ''no path specified'')
      | Some r \<Rightarrow> Returns r)"

text \<open>
  The loop of \<open>_find_parent_module_dir\<close>. Nothing bounds it: from a directory that is
  not below the root by its text, \<open>dirname\<close> ends in a path it no longer changes, and
  the loop goes on for ever. \<open>None\<close> is that outcome.
\<close>

partial_function (option) find_parent_loop ::
  "world \<Rightarrow> string \<Rightarrow> string \<Rightarrow> string \<Rightarrow> string result option" where
  "find_parent_loop w root start_dir current_dir =
     (if current_dir \<noteq> root then
        (if isfile w (path_join current_dir MODULE_CONFIG) then
           Some (relpath_result w current_dir root)
         else find_parent_loop w root start_dir (dirname current_dir))
      else Some (Raises (TestWithNoModuleError (''No Parent Module Dir for: '' @ start_dir))))"

declare find_parent_loop.simps [code]

definition find_parent_module_dir :: "world \<Rightarrow> CLITranslator \<Rightarrow> string \<Rightarrow> string result" where
  "find_parent_module_dir w self start_dir =
     (if \<not> is_equal_or_sub_dir w start_dir (root_dir self)
      then Raises (ValueError (start_dir @ '' not in repo '' @ root_dir self))
      else (case find_parent_loop w (root_dir self) start_dir start_dir of
              None \<Rightarrow> Hangs
            | Some r \<Rightarrow> r))"

text \<open>
  \<open>_extract_test_path\<close>: with more than one line of output the matches are printed,
  numbered from 0, and the number of the one to use is read from standard input.
\<close>

definition numbered_list :: "string list \<Rightarrow> string list" where
  "numbered_list tests = map (\<lambda>(i, t). str_of_nat i @ '': '' @ t) (enumerate 0 tests)"

definition extract_test_path :: "string \<Rightarrow> console \<Rightarrow> string option result \<times> console" where
  "extract_test_path out s =
     (if out = [] then (Returns None, s)
      else
        let tests = split_on (CHR 0x0A) (strip_chars (\<lambda>c. c = CHR 0x0A) out)
        in if 1 < length tests then
             io_bind
               (raw_input ''Please enter number of test to use:''
                  (emit (Printed (''Multiple tests found:'' @ [CHR 0x0A]
                     @ str_join [CHR 0x0A] (numbered_list tests))) s))
               (\<lambda>line s'.
                  (case py_int line of
                     None \<Rightarrow> (Raises (ValueError line), s')
                   | Some test_index \<Rightarrow>
                       (case py_index tests test_index of
                          None \<Rightarrow> (Raises IndexError, s')
                        | Some t \<Rightarrow> (Returns (Some t), s'))))
           else
             (case py_index tests 0 of
                None \<Rightarrow> (Raises IndexError, s)
              | Some t \<Rightarrow> (Returns (Some t), s)))"

text \<open>
  \<open>_get_module_name\<close>: the first item of the index whose first path is the directory
  and which has installed files. The paths are read with \<open>info.get('path', [])\<close>, so
  taking the first path of a record without the key or without paths is an
  \<open>IndexError\<close>.
\<close>

fun get_module_name_items :: "(string \<times> module_record) list \<Rightarrow> string \<Rightarrow> string result" where
  "get_module_name_items [] rel_module_path =
     Raises (UnregisteredModuleError (rel_module_path @ '' not in module-info.json''))"
| "get_module_name_items ((name, info) # items) rel_module_path =
     (case path info of
        None \<Rightarrow> Raises IndexError
      | Some [] \<Rightarrow> Raises IndexError
      | Some (p # _) \<Rightarrow>
          if rel_module_path = p \<and> installed info \<noteq> [] then Returns name
          else get_module_name_items items rel_module_path)"

definition get_module_name :: "CLITranslator \<Rightarrow> string \<Rightarrow> string result" where
  "get_module_name self rel_module_path = get_module_name_items (module_info self) rel_module_path"

definition get_module_path :: "CLITranslator \<Rightarrow> string \<Rightarrow> string option result" where
  "get_module_path self name =
     (case map_of (module_info self) name of
        None \<Rightarrow> Returns None
      | Some info \<Rightarrow>
          (case path info of
             None \<Rightarrow> Raises IndexError
           | Some [] \<Rightarrow> Raises IndexError
           | Some (p # _) \<Rightarrow> Returns (Some p)))"

text \<open>
  \<open>_get_targets_from_xml\<close>: every \<open>option\<close> element is read for its \<open>value\<close>; a
  stripped value that matches \<open>APK_RE\<close> gives a target, the value without its last four
  characters.
\<close>

fun targets_of_tags :: "py_text set \<Rightarrow> py_text option list \<Rightarrow> py_text set result" where
  "targets_of_tags targets [] = Returns targets"
| "targets_of_tags targets (None # tags) = Raises (KeyError ''value'')"
| "targets_of_tags targets (Some v # tags) =
     targets_of_tags
       (if APK_RE_match (text_strip v)
        then insert (as_key (text_without_last 4 (text_strip v))) targets else targets)
       tags"

definition get_targets_from_xml :: "world \<Rightarrow> string \<Rightarrow> py_text set result" where
  "get_targets_from_xml w xml_file =
     (case option_values w xml_file of
        Unreadable \<Rightarrow> Raises (IOError xml_file)
      | Malformed \<Rightarrow> Raises (ParseError xml_file)
      | Options tags \<Rightarrow> targets_of_tags {} tags)"

text \<open>
  \<open>_get_fully_qualified_class_name\<close>: the package of the first line that matches
  \<open>PACKAGE_RE\<close>, a dot, and the file's name without its extension. The class strategy
  may pass \<open>None\<close> for the path, which \<open>open\<close> refuses with a \<open>TypeError\<close>.
\<close>

fun first_package :: "string list \<Rightarrow> string option" where
  "first_package [] = None"
| "first_package (line # lines) =
     (case PACKAGE_RE_match line of
        Some package \<Rightarrow> Some package
      | None \<Rightarrow> first_package lines)"

definition get_fully_qualified_class_name :: "world \<Rightarrow> string option \<Rightarrow> string result" where
  "get_fully_qualified_class_name w test_path =
     (case test_path of
        None \<Rightarrow> Raises (TypeError ''coercing to Unicode: need string or buffer, NoneType found'')
      | Some p \<Rightarrow>
          (case file_lines w p of
             None \<Rightarrow> Raises (IOError p)
           | Some lines \<Rightarrow>
               (case first_package lines of
                  Some package \<Rightarrow> Returns (package @ ''.'' @ fst (splitext (snd (path_split p))))
                | None \<Rightarrow> Raises (MissingPackageName p))))"

section \<open>Resolution strategies\<close>

type_synonym strategy =
  "world \<Rightarrow> CLITranslator \<Rightarrow> string \<Rightarrow> console \<Rightarrow> TestInfo option result \<times> console"

text \<open>
  \<open>_find_test_by_module_name\<close>. The paths are read with \<open>info['path']\<close>: a record with
  installed files and no such key raises \<open>KeyError\<close>.
\<close>

definition find_test_by_module_name :: "CLITranslator \<Rightarrow> string \<Rightarrow> TestInfo option result" where
  "find_test_by_module_name self name =
     (case map_of (module_info self) name of
        None \<Rightarrow> Returns None
      | Some info \<Rightarrow>
          if installed info \<noteq> [] then
            (case path info of
               None \<Rightarrow> Raises (KeyError ''path'')
             | Some [] \<Rightarrow> Raises IndexError
             | Some (p # _) \<Rightarrow>
                 Returns (Some \<lparr>rel_config = path_join p MODULE_CONFIG, module_name = Some name,
                                 integrated_name = None, filters = None\<rparr>))
          else Returns None)"

text \<open>
  \<open>_find_test_by_class_name\<close>. The class name is read from the file found before the
  test for "nothing found" is made.
\<close>

definition find_test_by_class_name :: strategy where
  "find_test_by_class_name w self class_name s =
     (let find_cmd =
            (if CHR ''.'' \<in> set class_name
             then FIND_CMD_QUALIFIED_CLASS (root_dir self)
                    (replace_char (CHR ''.'') (CHR ''/'') class_name)
             else FIND_CMD_CLASS (root_dir self) class_name)
      in case check_output w find_cmd of
           None \<Rightarrow> (Raises (CalledProcessError find_cmd), s)
         | Some out \<Rightarrow>
             io_bind (extract_test_path out s)
               (\<lambda>test_path s'.
                  (result_bind (get_fully_qualified_class_name w test_path)
                     (\<lambda>full_class_name.
                        case test_path of
                          None \<Rightarrow> Returns None
                        | Some tp \<Rightarrow>
                            if tp = [] then Returns None
                            else
                              result_bind (find_parent_module_dir w self (dirname tp))
                                (\<lambda>rel_module_dir.
                                   result_bind (get_module_name self rel_module_dir)
                                     (\<lambda>mname.
                                        Returns (Some
                                          \<lparr>rel_config = path_join rel_module_dir MODULE_CONFIG,
                                           module_name = Some mname,
                                           integrated_name = None,
                                           filters = Some {full_class_name}\<rparr>)))),
                   s')))"

text \<open>
  \<open>_find_test_by_integration_name\<close>: the integration directories are searched in
  order; the first one whose search prints a path decides.
\<close>

fun find_integration :: "world \<Rightarrow> CLITranslator \<Rightarrow> string \<Rightarrow> string list \<Rightarrow> console
    \<Rightarrow> TestInfo option result \<times> console" where
  "find_integration w self name [] s = (Returns None, s)"
| "find_integration w self name (integration_dir # dirs) s =
     (case check_output w
             (FIND_CMD_INTEGRATION (path_join (root_dir self) integration_dir) name) of
        None \<Rightarrow>
          (Raises (CalledProcessError
             (FIND_CMD_INTEGRATION (path_join (root_dir self) integration_dir) name)), s)
      | Some out \<Rightarrow>
          (case extract_test_path out s of
             (Raises e, s') \<Rightarrow> (Raises e, s')
           | (Hangs, s') \<Rightarrow> (Hangs, s')
           | (Returns test_file, s') \<Rightarrow>
               if truthy test_file then
                 (case INT_NAME_RE_match (py_str test_file) of
                    None \<Rightarrow>
                      (Returns None,
                       emit (Errored (''Integration test outside config dir: ''
                         @ py_str test_file)) s')
                  | Some int_name \<Rightarrow>
                      if int_name \<noteq> name then
                        (Returns None,
                         emit (Warned (''Input ('' @ name
                           @ '') not valid integration name, did you mean: '' @ int_name
                           @ ''?'')) s')
                      else
                        (result_bind (relpath_result w (py_str test_file) (root_dir self))
                           (\<lambda>rc. Returns (Some \<lparr>rel_config = rc, module_name = None,
                                    integrated_name = Some name, filters = None\<rparr>)),
                         s'))
               else find_integration w self name dirs s'))"

definition find_test_by_integration_name :: strategy where
  "find_test_by_integration_name w self name s =
     find_integration w self name (integration_dirs self) s"

text \<open>\<open>_find_test_by_path\<close>.\<close>

fun find_int_dir :: "world \<Rightarrow> string \<Rightarrow> string \<Rightarrow> string list \<Rightarrow> string option" where
  "find_int_dir w root dir_path [] = None"
| "find_int_dir w root dir_path (possible_dir # dirs) =
     (if is_equal_or_sub_dir w dir_path (path_join root possible_dir)
      then Some (path_join root possible_dir)
      else find_int_dir w root dir_path dirs)"

definition find_test_by_path :: strategy where
  "find_test_by_path w self given s =
     (let p = realpath w given
      in if \<not> path_exists w p then (Returns None, s)
         else
           let dir_path = (if isfile w p then fst (path_split p) else p);
               file_name = (if isfile w p then Some (snd (path_split p)) else None)
           in if truthy (find_int_dir w (root_dir self) dir_path (integration_dirs self)) then
                (if \<not> truthy file_name then
                   (Returns None,
                    emit (Warned (''Found dir (''
                      @ py_str (find_int_dir w (root_dir self) dir_path (integration_dirs self))
                      @ '') matching input ('' @ p
                      @ ''). Referencing an entire Integration/Suite dir is not supported.''
                      @ '' If you are trying to reference a test by its path, please input''
                      @ '' the path to the integration/suite config file itself.''
                      @ '' Continuing to try to resolve input ('' @ p
                      @ '') as a non-path reference...'')) s)
                 else
                   (case relpath_result w p (root_dir self) of
                      Raises e \<Rightarrow> (Raises e, s)
                    | Hangs \<Rightarrow> (Hangs, s)
                    | Returns rc \<Rightarrow>
                        (case INT_NAME_RE_match rc of
                           None \<Rightarrow>
                             (Returns None,
                              emit (Errored (''Integration test outside config dir: '' @ rc)) s)
                         | Some int_name \<Rightarrow>
                             (Returns (Some \<lparr>rel_config = rc, module_name = None,
                                integrated_name = Some int_name, filters = None\<rparr>), s))))
              else
                (result_bind (find_parent_module_dir w self dir_path)
                   (\<lambda>rel_module_dir.
                      if rel_module_dir = [] then Returns None
                      else
                        result_bind (get_module_name self rel_module_dir)
                          (\<lambda>mname.
                             result_bind
                               (if truthy file_name \<and> endswith (py_str file_name) ''.java''
                                then result_bind (get_fully_qualified_class_name w (Some p))
                                       (\<lambda>c. Returns (Some c))
                                else Returns None)
                               (\<lambda>class_name.
                                  Returns (Some
                                    \<lparr>rel_config = path_join rel_module_dir MODULE_CONFIG,
                                     module_name = Some mname,
                                     integrated_name = None,
                                     filters = (if truthy class_name
                                                then Some {py_str class_name} else None)\<rparr>)))),
                 s))"

section \<open>Build targets and run commands\<close>

definition parse_build_targets :: "world \<Rightarrow> CLITranslator \<Rightarrow> TestInfo \<Rightarrow> py_text set result" where
  "parse_build_targets w self test_info =
     result_bind (get_targets_from_xml w (path_join (root_dir self) (rel_config test_info)))
       (\<lambda>targets.
          let with_umbrella =
                (if str_contains (rel_config test_info) (commonprefix (gtf_dirs self))
                 then insert (Str ''google-tradefed-all'') targets
                 else insert (Str ''tradefed-all'') targets)
          in Returns
               (if truthy (module_name test_info)
                then insert (Str (MODULES_IN (replace_char (CHR ''/'') (CHR ''-'')
                               (dirname (rel_config test_info))))) with_umbrella
                else with_umbrella))"

fun build_targets_loop :: "world \<Rightarrow> CLITranslator \<Rightarrow> py_text set \<Rightarrow> TestInfo list
    \<Rightarrow> py_text set result" where
  "build_targets_loop w self build_targets [] = Returns build_targets"
| "build_targets_loop w self build_targets (test_info # test_infos) =
     (case parse_build_targets w self test_info of
        Raises e \<Rightarrow> Raises e
      | Hangs \<Rightarrow> Hangs
      | Returns targets \<Rightarrow> build_targets_loop w self (build_targets \<union> targets) test_infos)"

definition generate_build_targets :: "world \<Rightarrow> CLITranslator \<Rightarrow> TestInfo list
    \<Rightarrow> py_text set result" where
  "generate_build_targets w self test_infos = build_targets_loop w self {} test_infos"

text \<open>
  \<open>_generate_run_commands\<close>: one command. Joining the arguments is a \<open>TypeError\<close>
  when \<open>paramify\<close> gave \<open>None\<close> for a descriptor.
\<close>

fun run_args :: "world \<Rightarrow> string option list \<Rightarrow> TestInfo list \<Rightarrow> string option list" where
  "run_args w args [] = args"
| "run_args w args (test_info # test_infos) =
     run_args w (args @ [Some ''--test-info'', paramify w test_info]) test_infos"

definition generate_run_commands :: "world \<Rightarrow> TestInfo list \<Rightarrow> string list result" where
  "generate_run_commands w test_infos =
     (let log_level = (if debug_enabled w then ''VERBOSE'' else ''WARN'');
          args = run_args w [Some ''--log-level'', Some log_level] test_infos
      in if list_all (\<lambda>a. a \<noteq> None) args
         then Returns [RUN_CMD (str_join '' '' (map py_str args))]
         else Raises (TypeError ''sequence item: expected string, NoneType found''))"

section \<open>The translator\<close>

text \<open>\<open>ref_type_to_func_map\<close>: five kinds have a strategy.\<close>

fun ref_type_to_func_map :: "ref_type \<Rightarrow> strategy option" where
  "ref_type_to_func_map MODULE = Some (\<lambda>w self name s. (find_test_by_module_name self name, s))"
| "ref_type_to_func_map CLASS = Some find_test_by_class_name"
| "ref_type_to_func_map QUALIFIED_CLASS = Some find_test_by_class_name"
| "ref_type_to_func_map FILE_PATH = Some find_test_by_path"
| "ref_type_to_func_map INTEGRATION = Some find_test_by_integration_name"
| "ref_type_to_func_map _ = None"

fun ref_type_name :: "ref_type \<Rightarrow> string" where
  "ref_type_name MODULE = ''MODULE''"
| "ref_type_name CLASS = ''CLASS''"
| "ref_type_name QUALIFIED_CLASS = ''QUALIFIED_CLASS''"
| "ref_type_name MODULE_CLASS = ''MODULE_CLASS''"
| "ref_type_name PACKAGE = ''PACKAGE''"
| "ref_type_name MODULE_PACKAGE = ''MODULE_PACKAGE''"
| "ref_type_name FILE_PATH = ''FILE_PATH''"
| "ref_type_name INTEGRATION = ''INTEGRATION''"
| "ref_type_name SUITE = ''SUITE''"

definition unsupported :: "string \<Rightarrow> ref_type \<Rightarrow> event" where
  "unsupported test_name ref_type =
     Warned ([CHR 0x22] @ test_name @ [CHR 0x22] @ '' as '' @ ref_type_name ref_type
       @ '' reference is unsupported. atest only supports identifying a test by its: ''
       @ ''MODULE, CLASS, QUALIFIED_CLASS, FILE_PATH, INTEGRATION'')"

text \<open>
  \<open>_get_test_info\<close>: the kinds are tried in order. The \<open>try\<close> encloses both the look-up
  of the strategy in the map and its call, and catches \<open>KeyError\<close>: the one the map
  raises for a kind without a strategy, and any raised inside the strategy. Either is
  logged as an unsupported kind and the next kind is tried; any other exception leaves
  the method. Falling out of the loop returns \<open>None\<close>.
\<close>

fun get_test_info :: "world \<Rightarrow> CLITranslator \<Rightarrow> string \<Rightarrow> ref_type list \<Rightarrow> console
    \<Rightarrow> TestInfo option result \<times> console" where
  "get_test_info w self test_name [] s = (Returns None, s)"
| "get_test_info w self test_name (ref_type # reference_types) s =
     (case ref_type_to_func_map ref_type of
        None \<Rightarrow>
          get_test_info w self test_name reference_types (emit (unsupported test_name ref_type) s)
      | Some f \<Rightarrow>
          (case f w self test_name s of
             (Returns (Some test_info), s') \<Rightarrow> (Returns (Some test_info), s')
           | (Returns None, s') \<Rightarrow> get_test_info w self test_name reference_types s'
           | (Raises (KeyError k), s') \<Rightarrow>
               get_test_info w self test_name reference_types
                 (emit (unsupported test_name ref_type) s')
           | (Raises e, s') \<Rightarrow> (Raises e, s')
           | (Hangs, s') \<Rightarrow> (Hangs, s')))"

text \<open>\<open>translate\<close>: the loop over the test strings, then the three aggregation steps.\<close>

fun find_tests :: "world \<Rightarrow> CLITranslator \<Rightarrow> TestInfo list \<Rightarrow> string list \<Rightarrow> console
    \<Rightarrow> TestInfo list result \<times> console" where
  "find_tests w self test_infos [] s = (Returns test_infos, s)"
| "find_tests w self test_infos (test # tests) s =
     (case get_test_info w self test (get_test_reference_types test) s of
        (Returns (Some test_info), s') \<Rightarrow> find_tests w self (test_infos @ [test_info]) tests s'
      | (Returns None, s') \<Rightarrow> (Raises (NoTestFoundError (''No test found for: '' @ test)), s')
      | (Raises e, s') \<Rightarrow> (Raises e, s')
      | (Hangs, s') \<Rightarrow> (Hangs, s'))"

definition translate :: "world \<Rightarrow> CLITranslator \<Rightarrow> string list \<Rightarrow> console
    \<Rightarrow> (py_text set \<times> string list) result \<times> console" where
  "translate w self tests s =
     io_bind (find_tests w self [] tests s)
       (\<lambda>found s'.
          let test_infos = flatten_by_module found
          in (result_bind (generate_build_targets w self test_infos)
                (\<lambda>build_targets.
                   result_bind (generate_run_commands w test_infos)
                     (\<lambda>run_commands. Returns (build_targets, run_commands))),
              s'))"

section \<open>An example repository\<close>

text \<open>
  A small tree under \<open>/r\<close>: the module \<open>FooTests\<close> in \<open>a/foo\<close> with two classes named
  \<open>FooTest\<close> and a class \<open>Broken\<close>, the module \<open>Lib\<close> without installed files, a class
  \<open>x.Bar\<close> outside every module, and three integration configurations under the second
  of the two integration directories: \<open>sub/bar\<close>, \<open>sub/baz\<close> and \<open>alt/baz\<close>. Paths hold no
  symbolic links.
\<close>

definition example_dirs :: "string list" where
  "example_dirs =
     [''/r'', ''/r/x'', ''/r/a'', ''/r/a/foo'', ''/r/a/foo/src'', ''/r/a/foo/src/p'',
      ''/r/a/foo/src/q'', ''/r/a/lib'', ''/r/tools'', ''/r/tools/tf'', ''/r/vendor'',
      ''/r/vendor/gtf'', ''/r/vendor/gtf/res'', ''/r/vendor/gtf/res/config'',
      ''/r/vendor/gtf/res/config/sub'', ''/r/vendor/gtf/res/config/alt'']"

definition example_files :: "(string \<times> string list) list" where
  "example_files =
     [(''/r/a/foo/AndroidTest.xml'', []),
      (''/r/a/foo/src/p/FooTest.java'', [''// first'' @ [CHR 0x0A], ''package p;'' @ [CHR 0x0A]]),
      (''/r/a/foo/src/q/FooTest.java'', [''package q;'' @ [CHR 0x0A]]),
      (''/r/a/foo/src/p/Broken.java'', [''package p;'' @ [CHR 0x0A]]),
      (''/r/x/Bar.java'', [''package x;'' @ [CHR 0x0A]]),
      (''/r/vendor/gtf/res/config/sub/bar.xml'', []),
      (''/r/vendor/gtf/res/config/sub/baz.xml'', []),
      (''/r/vendor/gtf/res/config/alt/baz.xml'', [])]"

definition example_finds :: "(string \<times> string) list" where
  "example_finds =
     [(FIND_CMD_CLASS ''/r'' ''FooTest'',
       ''/r/a/foo/src/p/FooTest.java'' @ [CHR 0x0A] @ ''/r/a/foo/src/q/FooTest.java''
         @ [CHR 0x0A]),
      (FIND_CMD_CLASS ''/r'' ''Broken'', ''/r/a/foo/src/p/Broken.java'' @ [CHR 0x0A]),
      (FIND_CMD_QUALIFIED_CLASS ''/r'' ''x/Bar'', ''/r/x/Bar.java'' @ [CHR 0x0A]),
      (FIND_CMD_INTEGRATION ''/r/vendor/gtf'' ''bar'',
       ''/r/vendor/gtf/res/config/sub/bar.xml'' @ [CHR 0x0A]),
      (FIND_CMD_INTEGRATION ''/r/vendor/gtf'' ''baz'',
       ''/r/vendor/gtf/res/config/sub/baz.xml'' @ [CHR 0x0A]
         @ ''/r/vendor/gtf/res/config/alt/baz.xml'' @ [CHR 0x0A])]"

definition example_world :: world where
  "example_world =
     \<lparr>realpath = (\<lambda>p. p),
      isdir = (\<lambda>p. p \<in> set example_dirs),
      isfile = (\<lambda>p. p \<in> set (map fst example_files)),
      path_exists = (\<lambda>p. p \<in> set example_dirs \<or> p \<in> set (map fst example_files)),
      getcwd = ''/r'',
      file_lines = map_of example_files,
      check_output =
        (\<lambda>cmd. case map_of example_finds cmd of None \<Rightarrow> Some [] | Some out \<Rightarrow> Some out),
      option_values =
        (\<lambda>f. if f = ''/r/a/foo/AndroidTest.xml''
             then Options [Some (Str ''FooTests.apk''), Some (Str ''pkg/Foo.apk'')]
             else if f \<in> set (map fst example_files) then Options [] else Unreadable),
      debug_enabled = False,
      set_order = sorted_list_of_set\<rparr>"

definition example_translator :: CLITranslator where
  "example_translator =
     \<lparr>root_dir = ''/r'',
      module_info =
        [(''FooTests'',
          \<lparr>path = Some [''a/foo''], installed = [''out/data/app/FooTests.apk'']\<rparr>),
         (''Lib'', \<lparr>path = Some [''a/lib''], installed = []\<rparr>),
         (''tradefed'', \<lparr>path = Some [''tools/tf''], installed = [''out/host/tradefed.jar'']\<rparr>),
         (''google-tradefed'',
          \<lparr>path = Some [''vendor/gtf''], installed = [''out/host/google-tradefed.jar'']\<rparr>)],
      tf_dirs = [''tools/tf''],
      gtf_dirs = [''vendor/gtf'']\<rparr>"

text \<open>The same translator over an index with one more record, which has no \<open>path\<close> key.\<close>

definition broken_translator :: CLITranslator where
  "broken_translator =
     example_translator
       \<lparr>module_info := module_info example_translator
          @ [(''Broken'', \<lparr>path = None, installed = [''out/data/app/Broken.apk'']\<rparr>)]\<rparr>"

definition quiet :: console where
  "quiet = \<lparr>stdin = [], emitted = []\<rparr>"

text \<open>The descriptor of the module \<open>FooTests\<close>, as the module strategy returns it.\<close>

definition foo_tests :: TestInfo where
  "foo_tests =
     \<lparr>rel_config = ''a/foo/AndroidTest.xml'', module_name = Some ''FooTests'',
      integrated_name = None, filters = None\<rparr>"

section \<open>Exceptions of the class, integration and path strategies\<close>

text \<open>
  The exceptions that leave these three strategies: those of the library calls and the
  module's own, but neither \<open>KeyError\<close> nor the three that none of them raises.
\<close>

fun strategy_error :: "error \<Rightarrow> bool" where
  "strategy_error (KeyError k) = False"
| "strategy_error (TooManyTestsFoundError m) = False"
| "strategy_error (NoTestFoundError m) = False"
| "strategy_error (ParseError m) = False"
| "strategy_error _ = True"

section \<open>Properties of the classifier\<close>

text \<open>
  C2. The classifier follows its decision table: a reference that starts with a dot is
  a file path only; one with a colon and a dot, no slash and no leading dot is a
  module-class or module-package reference; one with no slash, colon or dot is an
  integration, module or class reference, in that order.
\<close>

theorem classifier_decision_table:
  "(startswith ref ''.'' \<longrightarrow> get_test_reference_types ref = [FILE_PATH]) \<and>
   (CHR '':'' \<in> set ref \<and> CHR ''.'' \<in> set ref \<and> CHR ''/'' \<notin> set ref
      \<and> \<not> startswith ref ''.'' \<longrightarrow>
      get_test_reference_types ref = [MODULE_CLASS, MODULE_PACKAGE]) \<and>
   (CHR ''/'' \<notin> set ref \<and> CHR '':'' \<notin> set ref \<and> CHR ''.'' \<notin> set ref \<longrightarrow>
      get_test_reference_types ref = [INTEGRATION, MODULE, CLASS])"
proof (intro conjI impI)
  assume "startswith ref ''.''"
  then show "get_test_reference_types ref = [FILE_PATH]"
    by (simp add: get_test_reference_types_def)
next
  assume "CHR '':'' \<in> set ref \<and> CHR ''.'' \<in> set ref \<and> CHR ''/'' \<notin> set ref
    \<and> \<not> startswith ref ''.''"
  then show "get_test_reference_types ref = [MODULE_CLASS, MODULE_PACKAGE]"
    by (simp add: get_test_reference_types_def)
next
  assume h: "CHR ''/'' \<notin> set ref \<and> CHR '':'' \<notin> set ref \<and> CHR ''.'' \<notin> set ref"
  have "\<not> startswith ref ''.''"
  proof
    assume "startswith ref ''.''"
    then have "CHR ''.'' \<in> set (take 1 ref)" by (simp add: startswith_def)
    then have "CHR ''.'' \<in> set ref" by (rule in_set_takeD)
    with h show False by simp
  qed
  with h show "get_test_reference_types ref = [INTEGRATION, MODULE, CLASS]"
    by (simp add: get_test_reference_types_def)
qed

theorem classifier_decision_table_witness:
  "get_test_reference_types ''./a/Foo.java'' = [FILE_PATH] \<and>
   get_test_reference_types ''Mod:a.b.Foo'' = [MODULE_CLASS, MODULE_PACKAGE] \<and>
   get_test_reference_types ''FooTests'' = [INTEGRATION, MODULE, CLASS]"
  using classifier_decision_table [of "''./a/Foo.java''"]
    classifier_decision_table [of "''Mod:a.b.Foo''"]
    classifier_decision_table [of "''FooTests''"]
  by (simp add: startswith_def)

section \<open>Which exceptions the strategies raise\<close>

lemma relpath_result_error: "relpath_result w p start = Raises e \<Longrightarrow> strategy_error e"
  by (auto simp: relpath_result_def split: option.splits)

lemma find_parent_loop_error_aux:
  assumes found: "find_parent_loop w0 root0 start0 current0 = Some r0"
  shows "\<forall>e. r0 = Raises e \<longrightarrow> strategy_error e"
proof (rule find_parent_loop.raw_induct
    [where P = "\<lambda>w root start_dir current_dir r. \<forall>e. r = Raises e \<longrightarrow> strategy_error e",
     OF _ found])
  fix loop w root start_dir current_dir r
  assume ih: "\<And>w root start_dir current_dir y.
      loop w root start_dir current_dir = Some y \<Longrightarrow> \<forall>e. y = Raises e \<longrightarrow> strategy_error e"
    and step: "(if current_dir \<noteq> root
        then if isfile w (path_join current_dir MODULE_CONFIG)
             then Some (relpath_result w current_dir root)
             else loop w root start_dir (dirname current_dir)
        else Some (Raises (TestWithNoModuleError (''No Parent Module Dir for: '' @ start_dir))))
       = Some r"
  show "\<forall>e. r = Raises e \<longrightarrow> strategy_error e"
  proof (cases "current_dir \<noteq> root")
    case False
    with step show ?thesis by auto
  next
    case True
    show ?thesis
    proof (cases "isfile w (path_join current_dir MODULE_CONFIG)")
      case True
      with \<open>current_dir \<noteq> root\<close> step show ?thesis
        by (auto dest: relpath_result_error)
    next
      case False
      with \<open>current_dir \<noteq> root\<close> step
      have "loop w root start_dir (dirname current_dir) = Some r" by simp
      then show ?thesis by (rule ih)
    qed
  qed
qed

lemma find_parent_loop_error:
  "find_parent_loop w root start_dir current_dir = Some (Raises e) \<Longrightarrow> strategy_error e"
  using find_parent_loop_error_aux by blast

lemma find_parent_module_dir_error:
  "find_parent_module_dir w self start_dir = Raises e \<Longrightarrow> strategy_error e"
  by (auto simp: find_parent_module_dir_def split: if_splits option.splits
      dest: find_parent_loop_error)

lemma raw_input_error: "raw_input prompt s = (Raises e, s') \<Longrightarrow> strategy_error e"
  by (auto simp: raw_input_def split: list.splits)

lemma extract_test_path_error:
  "extract_test_path out s = (Raises e, s') \<Longrightarrow> strategy_error e"
  by (auto simp: extract_test_path_def io_bind_def Let_def
      split: if_splits option.splits prod.splits result.splits dest: raw_input_error)

lemma get_module_name_items_error:
  "get_module_name_items items rel = Raises e \<Longrightarrow> strategy_error e"
  by (induction items rel rule: get_module_name_items.induct)
     (auto split: option.splits list.splits if_splits)

lemma get_module_name_error: "get_module_name self rel = Raises e \<Longrightarrow> strategy_error e"
  by (auto simp: get_module_name_def dest: get_module_name_items_error)

lemma get_fully_qualified_class_name_error:
  "get_fully_qualified_class_name w tp = Raises e \<Longrightarrow> strategy_error e"
  by (auto simp: get_fully_qualified_class_name_def split: option.splits)

lemma result_bind_Raises:
  "result_bind r f = Raises e \<Longrightarrow> r = Raises e \<or> (\<exists>x. r = Returns x \<and> f x = Raises e)"
  by (auto simp: result_bind_def split: result.splits)

lemma find_test_by_class_name_error:
  "find_test_by_class_name w self name s = (Raises e, s') \<Longrightarrow> strategy_error e"
  by (auto simp: find_test_by_class_name_def io_bind_def Let_def
      split: option.splits if_splits prod.splits result.splits
      dest!: result_bind_Raises
      dest: extract_test_path_error get_fully_qualified_class_name_error
        find_parent_module_dir_error get_module_name_error)

lemma find_integration_error:
  "find_integration w self name dirs s = (Raises e, s') \<Longrightarrow> strategy_error e"
proof (induction dirs arbitrary: s)
  case Nil
  then show ?case by simp
next
  case (Cons d dirs)
  then show ?case
    by (auto split: option.splits if_splits prod.splits result.splits
        dest!: result_bind_Raises dest: extract_test_path_error relpath_result_error)
qed

lemma find_test_by_integration_name_error:
  "find_test_by_integration_name w self name s = (Raises e, s') \<Longrightarrow> strategy_error e"
  by (auto simp: find_test_by_integration_name_def dest: find_integration_error)

lemma find_test_by_path_error:
  "find_test_by_path w self name s = (Raises e, s') \<Longrightarrow> strategy_error e"
  by (auto simp: find_test_by_path_def Let_def
      split: option.splits if_splits prod.splits result.splits
      dest!: result_bind_Raises
      dest: relpath_result_error get_fully_qualified_class_name_error
        find_parent_module_dir_error get_module_name_error)

section \<open>Lemmas on the loops\<close>

lemma get_test_info_skip:
  "get_test_info w self n tried s = (Returns None, s1) \<Longrightarrow>
   get_test_info w self n (tried @ rest) s = get_test_info w self n rest s1"
proof (induction tried arbitrary: s)
  case Nil
  then show ?case by simp
next
  case (Cons k tried)
  then show ?case
    by (auto split: option.splits prod.splits result.splits error.splits)
qed

lemma get_test_info_raises:
  assumes "ref_type_to_func_map k = Some f" and "f w self n s = (Raises e, s')"
  shows "get_test_info w self n (k # rest) s =
    (case e of
       KeyError key \<Rightarrow> get_test_info w self n rest (emit (unsupported n k) s')
     | _ \<Rightarrow> (Raises e, s'))"
  using assms by (cases e) simp_all


lemma find_integration_skip:
  assumes "\<forall>d \<in> set searched.
      check_output w (FIND_CMD_INTEGRATION (path_join (root_dir self) d) name) = Some []"
  shows "find_integration w self name (searched @ dirs) s = find_integration w self name dirs s"
  using assms
  by (induction searched) (simp_all add: extract_test_path_def truthy_def)

lemma targets_of_tags_values:
  "targets_of_tags acc (map Some vals) =
     Returns (acc \<union> set (map (\<lambda>v. as_key (text_without_last 4 v))
       (filter APK_RE_match (map text_strip vals))))"
  by (induction vals arbitrary: acc) auto

lemma build_targets_of_descriptor:
  assumes "option_values w (path_join (root_dir self) (rel_config test_info)) =
      Options (map Some vals)"
  shows "parse_build_targets w self test_info =
       Returns
         (set (map (\<lambda>v. as_key (text_without_last 4 v))
            (filter APK_RE_match (map text_strip vals)))
          \<union> {Str (if str_contains (rel_config test_info) (commonprefix (gtf_dirs self))
                   then ''google-tradefed-all'' else ''tradefed-all'')}
          \<union> (if truthy (module_name test_info)
             then {Str (MODULES_IN (replace_char (CHR ''/'') (CHR ''-'')
                     (dirname (rel_config test_info))))}
             else {}))"
  using assms
  by (auto simp: parse_build_targets_def get_targets_from_xml_def result_bind_def
        targets_of_tags_values Let_def)

text \<open>
  A \<open>unicode\<close> value is stripped of the no-break space as well, and an ASCII target
  read from it is the byte string of the same characters.
\<close>

lemma targets_of_unicode_value:
  "targets_of_tags {} [Some (Unicode [160, 66, 97, 114, 46, 65, 80, 75, 160])] =
     Returns {Str ''Bar''}"
  by code_simp

lemma snd_io_bind_keep: "snd (io_bind m (\<lambda>x s'. (g x s', s'))) = snd m"
  by (auto simp: io_bind_def split: prod.splits result.splits)

lemma snd_raw_input:
  "snd (raw_input prompt s) = \<lparr>stdin = tl (stdin s), emitted = emitted s @ [Prompted prompt]\<rparr>"
  by (cases "stdin s") (simp_all add: raw_input_def emit_def)

lemma snd_extract_many:
  assumes "out \<noteq> []" and "1 < length (split_on (CHR 0x0A) (strip_chars (\<lambda>c. c = CHR 0x0A) out))"
  shows "snd (extract_test_path out s) =
    \<lparr>stdin = tl (stdin s),
     emitted = emitted s @
       [Printed (''Multiple tests found:'' @ [CHR 0x0A] @ str_join [CHR 0x0A]
          (numbered_list (split_on (CHR 0x0A) (strip_chars (\<lambda>c. c = CHR 0x0A) out)))),
        Prompted ''Please enter number of test to use:'']\<rparr>"
proof -
  have "snd (extract_test_path out s) =
     snd (raw_input ''Please enter number of test to use:''
       (emit (Printed (''Multiple tests found:'' @ [CHR 0x0A] @ str_join [CHR 0x0A]
          (numbered_list (split_on (CHR 0x0A) (strip_chars (\<lambda>c. c = CHR 0x0A) out))))) s))"
    using assms
    by (auto simp: extract_test_path_def Let_def io_bind_def
        split: prod.splits result.splits option.splits)
  then show ?thesis by (simp add: snd_raw_input emit_def)
qed

lemma fst_extract_no_input:
  assumes "out \<noteq> []" and "1 < length (split_on (CHR 0x0A) (strip_chars (\<lambda>c. c = CHR 0x0A) out))"
    and "stdin s = []"
  shows "fst (extract_test_path out s) = Raises EOFError"
  using assms
  by (simp add: extract_test_path_def Let_def io_bind_def raw_input_def emit_def)

lemma class_strategy_console:
  assumes "check_output w
       (if CHR ''.'' \<in> set class_name
        then FIND_CMD_QUALIFIED_CLASS (root_dir self)
               (replace_char (CHR ''.'') (CHR ''/'') class_name)
        else FIND_CMD_CLASS (root_dir self) class_name) = Some out"
  shows "snd (find_test_by_class_name w self class_name s) = snd (extract_test_path out s)"
    and "fst (extract_test_path out s) = Raises e \<Longrightarrow>
      fst (find_test_by_class_name w self class_name s) = Raises e"
  using assms
  by (auto simp: find_test_by_class_name_def Let_def io_bind_def
      split: prod.splits result.splits)

text \<open>
  The loop of \<open>_find_parent_module_dir\<close> does not end once it has reached \<open>/\<close> without
  meeting the root: \<open>/rx\<close> passes the prefix test against the root \<open>/r\<close>, and its parent
  is \<open>/\<close>.
\<close>

lemma dirname_root: "dirname ''/'' = ''/''"
  by code_simp

lemma find_parent_loop_stuck:
  assumes "root \<noteq> ''/''" and "\<not> isfile w (path_join ''/'' MODULE_CONFIG)"
  shows "find_parent_loop w root start_dir ''/'' = None"
proof (rule ccontr)
  assume "find_parent_loop w root start_dir ''/'' \<noteq> None"
  then obtain r where found: "find_parent_loop w root start_dir ''/'' = Some r" by auto
  have "\<not> (w = w \<and> root = root \<and> ''/'' = ''/'')"
  proof (rule find_parent_loop.raw_induct
      [where P = "\<lambda>w' root' start' current' r'. \<not> (w' = w \<and> root' = root \<and> current' = ''/'')",
       OF _ found])
    fix loop w' root' start' current' r'
    assume ih: "\<And>w' root' start' current' y.
        loop w' root' start' current' = Some y \<Longrightarrow>
        \<not> (w' = w \<and> root' = root \<and> current' = ''/'')"
      and step: "(if current' \<noteq> root'
          then if isfile w' (path_join current' MODULE_CONFIG)
               then Some (relpath_result w' current' root')
               else loop w' root' start' (dirname current')
          else Some (Raises (TestWithNoModuleError (''No Parent Module Dir for: '' @ start'))))
         = Some r'"
    show "\<not> (w' = w \<and> root' = root \<and> current' = ''/'')"
    proof
      assume eq: "w' = w \<and> root' = root \<and> current' = ''/''"
      with step assms have "loop w root start' (dirname ''/'') = Some r'" by auto
      then have "loop w root start' ''/'' = Some r'" by (simp add: dirname_root)
      then have "\<not> (w = w \<and> root = root \<and> ''/'' = ''/'')" by (rule ih)
      then show False by simp
    qed
  qed
  then show False by simp
qed

lemma find_parent_module_dir_hangs:
  "find_parent_module_dir (example_world\<lparr>isdir := (\<lambda>p. p = ''/r'' \<or> p = ''/rx'')\<rparr>)
     example_translator ''/rx'' = Hangs"
proof -
  let ?w = "example_world\<lparr>isdir := (\<lambda>p. p = ''/r'' \<or> p = ''/rx'')\<rparr>"
  have a: "is_equal_or_sub_dir ?w ''/rx'' (root_dir example_translator)" by code_simp
  have b: "\<not> isfile ?w (path_join ''/rx'' MODULE_CONFIG)" by code_simp
  have c: "\<not> isfile ?w (path_join ''/'' MODULE_CONFIG)" by code_simp
  have d: "dirname ''/rx'' = ''/''" by code_simp
  have r: "root_dir example_translator = ''/r''" by code_simp
  have "find_parent_loop ?w ''/r'' ''/rx'' ''/rx'' = find_parent_loop ?w ''/r'' ''/rx'' ''/''"
    using b d by (subst find_parent_loop.simps) simp
  also have "\<dots> = None" using c by (intro find_parent_loop_stuck) simp_all
  finally show ?thesis using a by (simp add: find_parent_module_dir_def r)
qed

section \<open>Flattening\<close>

text \<open>
  Two descriptors of one module with a descriptor of another module, or of none, between
  them leave the method as two descriptors of that module.
\<close>

lemma flatten_separated_pair:
  assumes "module_name t1 = Some m" and "module_name t3 = Some m" and "module_name t2 \<noteq> Some m"
  shows "length (filter (\<lambda>t. module_name t = Some m) (flatten_by_module [t1, t2, t3])) = 2"
  using assms
  by (cases "module_name t2")
     (auto simp: flatten_by_module_def split: prod.splits)

text \<open>
  C1. The claim is that flattening groups the descriptors of a module wherever they
  stand in the list, as the method's own description says ("only one TestInfo per module
  in list"). The method groups with \<open>itertools.groupby\<close>, which only joins neighbours:
  two descriptors of module \<open>Foo\<close> with filters \<open>{A}\<close> and \<open>{B}\<close> are merged into one with
  filters \<open>{A, B}\<close> when they are adjacent, and a neighbour without filters removes the
  restriction, but with an integration descriptor between them they come out as two
  descriptors of \<open>Foo\<close>, unmerged.
\<close>

theorem flatten_merges_neighbours_only:
  "flatten_by_module
     [\<lparr>rel_config = ''a/foo/AndroidTest.xml'', module_name = Some ''Foo'',
        integrated_name = None, filters = Some {''A''}\<rparr>,
      \<lparr>rel_config = ''a/foo/AndroidTest.xml'', module_name = Some ''Foo'',
        integrated_name = None, filters = Some {''B''}\<rparr>]
   = [\<lparr>rel_config = ''a/foo/AndroidTest.xml'', module_name = Some ''Foo'',
        integrated_name = None, filters = Some {''A'', ''B''}\<rparr>]
   \<and> flatten_by_module
     [\<lparr>rel_config = ''a/foo/AndroidTest.xml'', module_name = Some ''Foo'',
        integrated_name = None, filters = Some {''A''}\<rparr>,
      \<lparr>rel_config = ''a/foo/AndroidTest.xml'', module_name = Some ''Foo'',
        integrated_name = None, filters = None\<rparr>,
      \<lparr>rel_config = ''a/foo/AndroidTest.xml'', module_name = Some ''Foo'',
        integrated_name = None, filters = Some {''B''}\<rparr>]
   = [\<lparr>rel_config = ''a/foo/AndroidTest.xml'', module_name = Some ''Foo'',
        integrated_name = None, filters = None\<rparr>]
   \<and> flatten_by_module
     [\<lparr>rel_config = ''a/foo/AndroidTest.xml'', module_name = Some ''Foo'',
        integrated_name = None, filters = Some {''A''}\<rparr>,
      \<lparr>rel_config = ''vendor/gtf/res/config/sub/bar.xml'', module_name = None,
        integrated_name = Some ''sub/bar'', filters = None\<rparr>,
      \<lparr>rel_config = ''a/foo/AndroidTest.xml'', module_name = Some ''Foo'',
        integrated_name = None, filters = Some {''B''}\<rparr>]
   = [\<lparr>rel_config = ''a/foo/AndroidTest.xml'', module_name = Some ''Foo'',
        integrated_name = None, filters = Some {''A''}\<rparr>,
      \<lparr>rel_config = ''vendor/gtf/res/config/sub/bar.xml'', module_name = None,
        integrated_name = Some ''sub/bar'', filters = None\<rparr>,
      \<lparr>rel_config = ''a/foo/AndroidTest.xml'', module_name = Some ''Foo'',
        integrated_name = None, filters = Some {''B''}\<rparr>]"
  by (simp add: flatten_by_module_def insert_commute)

section \<open>The module strategy\<close>

text \<open>
  C8. For a module whose record has no installed files the module strategy returns
  \<open>None\<close> and raises nothing. For a record with installed files and a first path it
  returns the descriptor whose configuration is that path joined with
  \<open>AndroidTest.xml\<close>, whose module name is the name asked for, and which has no
  filters; for a path that is not empty and does not end in a slash the joined path is
  the path, a slash and the file name.
\<close>

theorem module_strategy:
  assumes "map_of (module_info self) name = Some info"
  shows "(installed info = [] \<longrightarrow> find_test_by_module_name self name = Returns None) \<and>
    (installed info \<noteq> [] \<and> path info = Some (p # ps) \<longrightarrow>
       find_test_by_module_name self name =
         Returns (Some \<lparr>rel_config = path_join p MODULE_CONFIG, module_name = Some name,
                         integrated_name = None, filters = None\<rparr>)
       \<and> (p \<noteq> [] \<and> \<not> endswith p ''/'' \<longrightarrow>
            path_join p MODULE_CONFIG = p @ ''/AndroidTest.xml''))"
  using assms
  by (simp add: find_test_by_module_name_def path_join_def MODULE_CONFIG_def startswith_def)

theorem module_strategy_witness:
  "find_test_by_module_name example_translator ''Lib'' = Returns None \<and>
   find_test_by_module_name example_translator ''FooTests'' = Returns (Some foo_tests)"
proof -
  have h1: "map_of (module_info example_translator) ''Lib'' =
      Some \<lparr>path = Some [''a/lib''], installed = []\<rparr>"
    by code_simp
  have h2: "map_of (module_info example_translator) ''FooTests'' =
      Some \<lparr>path = Some [''a/foo''], installed = [''out/data/app/FooTests.apk'']\<rparr>"
    by code_simp
  have e: "endswith ''a/foo'' ''/'' = False" by code_simp
  show ?thesis
    using module_strategy [OF h1, of "''a/lib''" "[]"]
      module_strategy [OF h2, of "''a/foo''" "[]"] e
    by (simp add: foo_tests_def)
qed

section \<open>The class strategy\<close>

text \<open>
  C4. The claim is that a class search without a hit makes the class strategy return
  \<open>None\<close>, as its description says ("else None"). The method reads the class name from
  the file found before it tests whether a file was found, so with nothing found it
  opens \<open>None\<close> and the \<open>TypeError\<close> of \<open>open\<close> leaves the strategy.
\<close>

theorem class_strategy_nothing_found_raises:
  assumes "check_output w
       (if CHR ''.'' \<in> set class_name
        then FIND_CMD_QUALIFIED_CLASS (root_dir self)
               (replace_char (CHR ''.'') (CHR ''/'') class_name)
        else FIND_CMD_CLASS (root_dir self) class_name) = Some []"
  shows "find_test_by_class_name w self class_name s =
    (Raises (TypeError ''coercing to Unicode: need string or buffer, NoneType found''), s)"
  using assms
  by (simp add: find_test_by_class_name_def extract_test_path_def io_bind_def result_bind_def
      get_fully_qualified_class_name_def)

theorem class_strategy_nothing_found_raises_witness:
  "find_test_by_class_name example_world example_translator ''NoSuchTest'' quiet =
     (Raises (TypeError ''coercing to Unicode: need string or buffer, NoneType found''), quiet)"
proof -
  have h: "check_output example_world
       (if CHR ''.'' \<in> set ''NoSuchTest''
        then FIND_CMD_QUALIFIED_CLASS (root_dir example_translator)
               (replace_char (CHR ''.'') (CHR ''/'') ''NoSuchTest'')
        else FIND_CMD_CLASS (root_dir example_translator) ''NoSuchTest'') = Some []"
    by code_simp
  show ?thesis by (rule class_strategy_nothing_found_raises [OF h])
qed

text \<open>
  C5. The method has one mode. When the class search prints more than one path, the
  class strategy prints the numbered paths, asks for a number and takes the next line
  of standard input; with no line left that is an \<open>EOFError\<close>. It never raises
  \<open>TooManyTestsFoundError\<close>.
\<close>

theorem class_strategy_asks_for_choice:
  assumes "check_output w
       (if CHR ''.'' \<in> set class_name
        then FIND_CMD_QUALIFIED_CLASS (root_dir self)
               (replace_char (CHR ''.'') (CHR ''/'') class_name)
        else FIND_CMD_CLASS (root_dir self) class_name) = Some out"
    and "out \<noteq> []"
    and "1 < length (split_on (CHR 0x0A) (strip_chars (\<lambda>c. c = CHR 0x0A) out))"
  shows "emitted (snd (find_test_by_class_name w self class_name s)) =
      emitted s @
       [Printed (''Multiple tests found:'' @ [CHR 0x0A] @ str_join [CHR 0x0A]
          (numbered_list (split_on (CHR 0x0A) (strip_chars (\<lambda>c. c = CHR 0x0A) out)))),
        Prompted ''Please enter number of test to use:'']
    \<and> stdin (snd (find_test_by_class_name w self class_name s)) = tl (stdin s)
    \<and> (stdin s = [] \<longrightarrow> fst (find_test_by_class_name w self class_name s) = Raises EOFError)
    \<and> (\<forall>m. fst (find_test_by_class_name w self class_name s)
          \<noteq> Raises (TooManyTestsFoundError m))"
proof -
  have a: "snd (find_test_by_class_name w self class_name s) = snd (extract_test_path out s)"
    using assms(1) by (rule class_strategy_console(1))
  have b: "stdin s = [] \<longrightarrow> fst (find_test_by_class_name w self class_name s) = Raises EOFError"
  proof
    assume "stdin s = []"
    with assms(2,3) have "fst (extract_test_path out s) = Raises EOFError"
      by (rule fst_extract_no_input)
    with assms(1) show "fst (find_test_by_class_name w self class_name s) = Raises EOFError"
      by (rule class_strategy_console(2))
  qed
  have c: "\<forall>m. fst (find_test_by_class_name w self class_name s)
      \<noteq> Raises (TooManyTestsFoundError m)"
  proof (intro allI notI)
    fix m
    assume "fst (find_test_by_class_name w self class_name s) = Raises (TooManyTestsFoundError m)"
    then have "find_test_by_class_name w self class_name s =
        (Raises (TooManyTestsFoundError m), snd (find_test_by_class_name w self class_name s))"
      by (metis prod.collapse)
    then have "strategy_error (TooManyTestsFoundError m)"
      by (rule find_test_by_class_name_error)
    then show False by simp
  qed
  from a b c show ?thesis by (simp add: snd_extract_many [OF assms(2,3)])
qed

theorem class_strategy_asks_for_choice_witness:
  "emitted (snd (find_test_by_class_name example_world example_translator ''FooTest'' quiet)) =
     [Printed (''Multiple tests found:'' @ [CHR 0x0A] @ ''0: /r/a/foo/src/p/FooTest.java''
        @ [CHR 0x0A] @ ''1: /r/a/foo/src/q/FooTest.java''),
      Prompted ''Please enter number of test to use:'']
   \<and> fst (find_test_by_class_name example_world example_translator ''FooTest'' quiet) =
     Raises EOFError"
proof -
  let ?out = "''/r/a/foo/src/p/FooTest.java'' @ [CHR 0x0A] @ ''/r/a/foo/src/q/FooTest.java''
    @ [CHR 0x0A]"
  have h1: "check_output example_world
       (if CHR ''.'' \<in> set ''FooTest''
        then FIND_CMD_QUALIFIED_CLASS (root_dir example_translator)
               (replace_char (CHR ''.'') (CHR ''/'') ''FooTest'')
        else FIND_CMD_CLASS (root_dir example_translator) ''FooTest'') = Some ?out"
    by code_simp
  have h2: "?out \<noteq> []" by simp
  have h3: "1 < length (split_on (CHR 0x0A) (strip_chars (\<lambda>c. c = CHR 0x0A) ?out))"
    by code_simp
  have e1: "str_join [CHR 0x0A]
      (numbered_list (split_on (CHR 0x0A) (strip_chars (\<lambda>c. c = CHR 0x0A) ?out))) =
      ''0: /r/a/foo/src/p/FooTest.java'' @ [CHR 0x0A] @ ''1: /r/a/foo/src/q/FooTest.java''"
    by code_simp
  have e2: "stdin quiet = []" and e3: "emitted quiet = []"
    by (simp_all add: quiet_def)
  show ?thesis
    using class_strategy_asks_for_choice [OF h1 h2 h3, of quiet]
    unfolding e1 e2 e3 by simp
qed

text \<open>
  With two classes called \<open>FooTest\<close> and the answer \<open>1\<close> on standard input, the class
  strategy resolves the reference to the second class: more than one match is not an
  error.
\<close>

theorem class_strategy_resolves_after_choice:
  "check_output example_world (FIND_CMD_CLASS ''/r'' ''FooTest'') =
     Some (''/r/a/foo/src/p/FooTest.java'' @ [CHR 0x0A] @ ''/r/a/foo/src/q/FooTest.java''
       @ [CHR 0x0A])
   \<and> find_test_by_class_name example_world example_translator ''FooTest''
     \<lparr>stdin = [''1''], emitted = []\<rparr> =
   (Returns (Some \<lparr>rel_config = ''a/foo/AndroidTest.xml'', module_name = Some ''FooTests'',
       integrated_name = None, filters = Some {''q.FooTest''}\<rparr>),
    \<lparr>stdin = [],
      emitted = [Printed (''Multiple tests found:'' @ [CHR 0x0A]
         @ ''0: /r/a/foo/src/p/FooTest.java'' @ [CHR 0x0A] @ ''1: /r/a/foo/src/q/FooTest.java''),
        Prompted ''Please enter number of test to use:'']\<rparr>)"
  by code_simp

section \<open>The integration strategy\<close>

text \<open>
  C9. The integration directories are searched in order, and the first search that
  prints anything decides. When it prints one file whose name, read after
  \<open>/res/config/\<close>, is not the name asked for, the integration strategy logs the warning
  "did you mean" with the name read and returns \<open>None\<close>; it raises nothing, and the
  lookup goes on with the kinds that follow. When it prints several files, the strategy
  first asks which one to use: for a file chosen by its number the same holds, while
  with no line on standard input, a line that is not a number, or a number out of range,
  the strategy raises \<open>EOFError\<close>, \<open>ValueError\<close> or \<open>IndexError\<close> and logs no warning.
\<close>

theorem integration_near_miss:
  assumes "integration_dirs self = searched @ d # dirs"
    and "\<forall>d' \<in> set searched.
      check_output w (FIND_CMD_INTEGRATION (path_join (root_dir self) d') name) = Some []"
    and "check_output w (FIND_CMD_INTEGRATION (path_join (root_dir self) d) name) = Some out"
    and "out \<noteq> []"
    and "tests = split_on (CHR 0x0A) (strip_chars (\<lambda>c. c = CHR 0x0A) out)"
    and "asked =
      emit (Prompted ''Please enter number of test to use:'')
        (emit (Printed (''Multiple tests found:'' @ [CHR 0x0A]
           @ str_join [CHR 0x0A] (numbered_list tests))) s)"
    and "test_file \<noteq> []"
    and "INT_NAME_RE_match test_file = Some int_name"
    and "int_name \<noteq> name"
    and "hint = Warned (''Input ('' @ name @ '') not valid integration name, did you mean: ''
      @ int_name @ ''?'')"
  shows "(tests = [test_file] \<longrightarrow>
       find_test_by_integration_name w self name s = (Returns None, emit hint s)
       \<and> get_test_info w self name (INTEGRATION # reference_types) s =
           get_test_info w self name reference_types (emit hint s))
    \<and> (1 < length tests \<and> stdin s = line # rest \<and> py_int line = Some i
         \<and> py_index tests i = Some test_file \<longrightarrow>
       find_test_by_integration_name w self name s =
         (Returns None, emit hint (asked\<lparr>stdin := rest\<rparr>))
       \<and> get_test_info w self name (INTEGRATION # reference_types) s =
           get_test_info w self name reference_types (emit hint (asked\<lparr>stdin := rest\<rparr>)))
    \<and> (1 < length tests \<and> stdin s = [] \<longrightarrow>
       find_test_by_integration_name w self name s = (Raises EOFError, asked))
    \<and> (1 < length tests \<and> stdin s = line # rest \<and> py_int line = None \<longrightarrow>
       find_test_by_integration_name w self name s =
         (Raises (ValueError line), asked\<lparr>stdin := rest\<rparr>))
    \<and> (1 < length tests \<and> stdin s = line # rest \<and> py_int line = Some i
         \<and> py_index tests i = None \<longrightarrow>
       find_test_by_integration_name w self name s =
         (Raises IndexError, asked\<lparr>stdin := rest\<rparr>))"
proof -
  have start: "find_test_by_integration_name w self name s =
      find_integration w self name (d # dirs) s"
    using assms(1,2) by (simp add: find_test_by_integration_name_def find_integration_skip)
  have one: "tests = [test_file] \<Longrightarrow>
      extract_test_path out s = (Returns (Some test_file), s)"
    using assms(4) unfolding assms(5) by (simp add: extract_test_path_def py_index_def Let_def)
  have chosen: "1 < length tests \<Longrightarrow> stdin s = line # rest \<Longrightarrow> py_int line = Some i \<Longrightarrow>
      py_index tests i = Some test_file \<Longrightarrow>
      extract_test_path out s = (Returns (Some test_file), asked\<lparr>stdin := rest\<rparr>)"
    using assms(4) unfolding assms(5) assms(6)
    by (simp add: extract_test_path_def io_bind_def raw_input_def Let_def emit_def)
  have none: "1 < length tests \<Longrightarrow> stdin s = [] \<Longrightarrow>
      extract_test_path out s = (Raises EOFError, asked)"
    using assms(4) unfolding assms(5) assms(6)
    by (simp add: extract_test_path_def io_bind_def raw_input_def Let_def emit_def)
  have bad: "1 < length tests \<Longrightarrow> stdin s = line # rest \<Longrightarrow> py_int line = None \<Longrightarrow>
      extract_test_path out s = (Raises (ValueError line), asked\<lparr>stdin := rest\<rparr>)"
    using assms(4) unfolding assms(5) assms(6)
    by (simp add: extract_test_path_def io_bind_def raw_input_def Let_def emit_def)
  have range: "1 < length tests \<Longrightarrow> stdin s = line # rest \<Longrightarrow> py_int line = Some i \<Longrightarrow>
      py_index tests i = None \<Longrightarrow>
      extract_test_path out s = (Raises IndexError, asked\<lparr>stdin := rest\<rparr>)"
    using assms(4) unfolding assms(5) assms(6)
    by (simp add: extract_test_path_def io_bind_def raw_input_def Let_def emit_def)
  have miss: "\<And>s'. extract_test_path out s = (Returns (Some test_file), s') \<Longrightarrow>
      find_test_by_integration_name w self name s = (Returns None, emit hint s')"
    using start assms(3,7,8,9,10) by (simp add: truthy_def py_str_def)
  have raise: "\<And>e s'. extract_test_path out s = (Raises e, s') \<Longrightarrow>
      find_test_by_integration_name w self name s = (Raises e, s')"
    using start assms(3) by simp
  have c1: "tests = [test_file] \<longrightarrow>
       find_test_by_integration_name w self name s = (Returns None, emit hint s)
       \<and> get_test_info w self name (INTEGRATION # reference_types) s =
           get_test_info w self name reference_types (emit hint s)"
    using miss [OF one] by simp
  have c2: "1 < length tests \<and> stdin s = line # rest \<and> py_int line = Some i
         \<and> py_index tests i = Some test_file \<longrightarrow>
       find_test_by_integration_name w self name s =
         (Returns None, emit hint (asked\<lparr>stdin := rest\<rparr>))
       \<and> get_test_info w self name (INTEGRATION # reference_types) s =
           get_test_info w self name reference_types (emit hint (asked\<lparr>stdin := rest\<rparr>))"
    using miss [OF chosen] by simp
  have c3: "1 < length tests \<and> stdin s = [] \<longrightarrow>
       find_test_by_integration_name w self name s = (Raises EOFError, asked)"
    using raise [OF none] by simp
  have c4: "1 < length tests \<and> stdin s = line # rest \<and> py_int line = None \<longrightarrow>
       find_test_by_integration_name w self name s =
         (Raises (ValueError line), asked\<lparr>stdin := rest\<rparr>)"
    using raise [OF bad] by simp
  have c5: "1 < length tests \<and> stdin s = line # rest \<and> py_int line = Some i
         \<and> py_index tests i = None \<longrightarrow>
       find_test_by_integration_name w self name s =
         (Raises IndexError, asked\<lparr>stdin := rest\<rparr>)"
    using raise [OF range] by simp
  from c1 c2 c3 c4 c5 show ?thesis by blast
qed

theorem integration_near_miss_witness:
  "find_test_by_integration_name example_world example_translator ''bar'' quiet =
     (Returns None,
      \<lparr>stdin = [],
        emitted = [Warned ''Input (bar) not valid integration name, did you mean: sub/bar?'']\<rparr>)
   \<and> get_test_info example_world example_translator ''bar'' [INTEGRATION, MODULE] quiet =
     (Returns None,
      \<lparr>stdin = [],
        emitted = [Warned ''Input (bar) not valid integration name, did you mean: sub/bar?'']\<rparr>)
   \<and> find_test_by_integration_name example_world example_translator ''baz''
       \<lparr>stdin = [''1''], emitted = []\<rparr> =
     (Returns None,
      \<lparr>stdin = [],
        emitted =
          [Printed (''Multiple tests found:'' @ [CHR 0x0A]
             @ ''0: /r/vendor/gtf/res/config/sub/baz.xml'' @ [CHR 0x0A]
             @ ''1: /r/vendor/gtf/res/config/alt/baz.xml''),
           Prompted ''Please enter number of test to use:'',
           Warned ''Input (baz) not valid integration name, did you mean: alt/baz?'']\<rparr>)
   \<and> fst (find_test_by_integration_name example_world example_translator ''baz''
       \<lparr>stdin = [''two''], emitted = []\<rparr>) = Raises (ValueError ''two'')"
proof -
  let ?bar = "''/r/vendor/gtf/res/config/sub/bar.xml''"
  let ?out = "''/r/vendor/gtf/res/config/sub/baz.xml'' @ [CHR 0x0A]
    @ ''/r/vendor/gtf/res/config/alt/baz.xml'' @ [CHR 0x0A]"
  let ?tests = "[''/r/vendor/gtf/res/config/sub/baz.xml'', ''/r/vendor/gtf/res/config/alt/baz.xml'']"
  let ?alt = "''/r/vendor/gtf/res/config/alt/baz.xml''"
  have h1: "integration_dirs example_translator = [''tools/tf''] @ ''vendor/gtf'' # []"
    by code_simp
  have h2: "\<forall>d' \<in> set [''tools/tf''].
      check_output example_world
        (FIND_CMD_INTEGRATION (path_join (root_dir example_translator) d') ''bar'') = Some []"
    by code_simp
  have h3: "check_output example_world
        (FIND_CMD_INTEGRATION (path_join (root_dir example_translator) ''vendor/gtf'') ''bar'')
      = Some (?bar @ [CHR 0x0A])"
    by code_simp
  have h4: "?bar @ [CHR 0x0A] \<noteq> []" by simp
  have h5: "[?bar] = split_on (CHR 0x0A) (strip_chars (\<lambda>c. c = CHR 0x0A) (?bar @ [CHR 0x0A]))"
    by code_simp
  have h7: "?bar \<noteq> []" by simp
  have h8: "INT_NAME_RE_match ?bar = Some ''sub/bar''" by code_simp
  have h9: "''sub/bar'' \<noteq> ''bar''" by simp
  have e: "find_test_by_module_name example_translator ''bar'' = Returns None"
    by code_simp
  have bar: "find_test_by_integration_name example_world example_translator ''bar'' quiet =
       (Returns None,
        emit (Warned (''Input ('' @ ''bar'' @ '') not valid integration name, did you mean: ''
          @ ''sub/bar'' @ ''?'')) quiet)
     \<and> get_test_info example_world example_translator ''bar'' (INTEGRATION # [MODULE]) quiet =
       get_test_info example_world example_translator ''bar'' [MODULE]
         (emit (Warned (''Input ('' @ ''bar'' @ '') not valid integration name, did you mean: ''
            @ ''sub/bar'' @ ''?'')) quiet)"
    using integration_near_miss [OF h1 h2 h3 h4 h5 refl h7 h8 h9 refl, of quiet "[MODULE]"]
    by blast
  have g2: "\<forall>d' \<in> set [''tools/tf''].
      check_output example_world
        (FIND_CMD_INTEGRATION (path_join (root_dir example_translator) d') ''baz'') = Some []"
    by code_simp
  have g3: "check_output example_world
        (FIND_CMD_INTEGRATION (path_join (root_dir example_translator) ''vendor/gtf'') ''baz'')
      = Some ?out"
    by code_simp
  have g4: "?out \<noteq> []" by simp
  have g5: "?tests = split_on (CHR 0x0A) (strip_chars (\<lambda>c. c = CHR 0x0A) ?out)"
    by code_simp
  have g7: "?alt \<noteq> []" by simp
  have g8: "INT_NAME_RE_match ?alt = Some ''alt/baz''" by code_simp
  have g9: "''alt/baz'' \<noteq> ''baz''" by simp
  have p1: "py_int ''1'' = Some 1" by code_simp
  have p2: "py_index ?tests 1 = Some ?alt" by code_simp
  have p3: "py_int ''two'' = None" by code_simp
  have n: "str_join [CHR 0x0A] (numbered_list ?tests) =
      ''0: /r/vendor/gtf/res/config/sub/baz.xml'' @ [CHR 0x0A]
        @ ''1: /r/vendor/gtf/res/config/alt/baz.xml''"
    by code_simp
  have baz: "find_test_by_integration_name example_world example_translator ''baz''
       \<lparr>stdin = [''1''], emitted = []\<rparr> =
     (Returns None,
      emit (Warned (''Input ('' @ ''baz'' @ '') not valid integration name, did you mean: ''
        @ ''alt/baz'' @ ''?''))
        ((emit (Prompted ''Please enter number of test to use:'')
           (emit (Printed (''Multiple tests found:'' @ [CHR 0x0A]
              @ str_join [CHR 0x0A] (numbered_list ?tests)))
              \<lparr>stdin = [''1''], emitted = []\<rparr>))\<lparr>stdin := []\<rparr>))"
    using integration_near_miss [OF h1 g2 g3 g4 g5 refl g7 g8 g9 refl,
        of "\<lparr>stdin = [''1''], emitted = []\<rparr>" _ "''1''" "[]" 1] p1 p2
    by simp
  have two: "find_test_by_integration_name example_world example_translator ''baz''
       \<lparr>stdin = [''two''], emitted = []\<rparr> =
     (Raises (ValueError ''two''),
      (emit (Prompted ''Please enter number of test to use:'')
           (emit (Printed (''Multiple tests found:'' @ [CHR 0x0A]
              @ str_join [CHR 0x0A] (numbered_list ?tests)))
              \<lparr>stdin = [''two''], emitted = []\<rparr>))\<lparr>stdin := []\<rparr>)"
    using integration_near_miss [OF h1 g2 g3 g4 g5 refl g7 g8 g9 refl,
        of "\<lparr>stdin = [''two''], emitted = []\<rparr>" _ "''two''" "[]"] p3
    by simp
  from bar e baz two show ?thesis
    unfolding n by (simp add: emit_def quiet_def)
qed

text \<open>
  Two configurations are called \<open>baz.xml\<close>, neither with the name \<open>baz\<close>. With nothing
  on standard input the strategy raises \<open>EOFError\<close> at the prompt: it does not return
  \<open>None\<close>, and no "did you mean" warning is logged.
\<close>

theorem integration_two_matches_no_answer:
  "check_output example_world (FIND_CMD_INTEGRATION ''/r/vendor/gtf'' ''baz'') =
     Some (''/r/vendor/gtf/res/config/sub/baz.xml'' @ [CHR 0x0A]
       @ ''/r/vendor/gtf/res/config/alt/baz.xml'' @ [CHR 0x0A])
   \<and> INT_NAME_RE_match ''/r/vendor/gtf/res/config/sub/baz.xml'' = Some ''sub/baz''
   \<and> INT_NAME_RE_match ''/r/vendor/gtf/res/config/alt/baz.xml'' = Some ''alt/baz''
   \<and> find_test_by_integration_name example_world example_translator ''baz'' quiet =
     (Raises EOFError,
      \<lparr>stdin = [],
        emitted =
          [Printed (''Multiple tests found:'' @ [CHR 0x0A]
             @ ''0: /r/vendor/gtf/res/config/sub/baz.xml'' @ [CHR 0x0A]
             @ ''1: /r/vendor/gtf/res/config/alt/baz.xml''),
           Prompted ''Please enter number of test to use:'']\<rparr>)"
  by code_simp

section \<open>The lookup\<close>

text \<open>
  C6. The claim is that an exception raised by a strategy ends the lookup and is never
  hidden by trying the next kind. The \<open>try\<close> of \<open>_get_test_info\<close> is there for the
  \<open>KeyError\<close> of a kind without a strategy, as its warning says ("reference is
  unsupported"), but it encloses the call of the strategy too. So, when the kinds tried
  so far gave nothing and the strategy of the next kind raises, every exception but
  \<open>KeyError\<close> leaves the lookup, as claimed, while a \<open>KeyError\<close> raised inside the strategy
  is answered with that warning and the lookup goes on with the kinds that follow. The
  module strategy raises \<open>KeyError\<close> for a record with installed files and no \<open>path\<close> key.
\<close>

theorem strategy_error_aborts_unless_key_error:
  assumes "get_test_info w self test_name tried s = (Returns None, s1)"
    and "ref_type_to_func_map ref_type = Some f"
    and "f w self test_name s1 = (Raises e, s2)"
  shows "((\<forall>key. e \<noteq> KeyError key) \<longrightarrow>
       get_test_info w self test_name (tried @ ref_type # remaining) s = (Raises e, s2)
       \<and> (get_test_reference_types test_name = tried @ ref_type # remaining \<longrightarrow>
            translate w self (test_name # tests) s = (Raises e, s2)))
    \<and> (\<forall>key. e = KeyError key \<longrightarrow>
       get_test_info w self test_name (tried @ ref_type # remaining) s =
         get_test_info w self test_name remaining (emit (unsupported test_name ref_type) s2))"
proof -
  have step: "get_test_info w self test_name (tried @ ref_type # remaining) s =
      (case e of
         KeyError key \<Rightarrow>
           get_test_info w self test_name remaining (emit (unsupported test_name ref_type) s2)
       | _ \<Rightarrow> (Raises e, s2))"
  proof -
    have "get_test_info w self test_name (tried @ ref_type # remaining) s =
        get_test_info w self test_name (ref_type # remaining) s1"
      using assms(1) by (rule get_test_info_skip)
    also have "\<dots> =
        (case e of
           KeyError key \<Rightarrow>
             get_test_info w self test_name remaining (emit (unsupported test_name ref_type) s2)
         | _ \<Rightarrow> (Raises e, s2))"
      using assms(2,3) by (rule get_test_info_raises)
    finally show ?thesis .
  qed
  show ?thesis
  proof (cases e)
    case (KeyError key)
    with step show ?thesis by simp
  qed (use step in \<open>simp_all add: translate_def io_bind_def\<close>)
qed

theorem strategy_error_aborts_unless_key_error_witness:
  "get_test_info example_world example_translator ''x.Bar''
     [FILE_PATH, QUALIFIED_CLASS, PACKAGE] quiet =
     (Raises (TestWithNoModuleError ''No Parent Module Dir for: /r/x''), quiet)
   \<and> translate example_world example_translator [''x.Bar'', ''FooTests''] quiet =
     (Raises (TestWithNoModuleError ''No Parent Module Dir for: /r/x''), quiet)
   \<and> find_test_by_module_name broken_translator ''Broken'' = Raises (KeyError ''path'')
   \<and> get_test_info example_world broken_translator ''Broken''
       [INTEGRATION, MODULE, CLASS] quiet =
     (Returns (Some \<lparr>rel_config = ''a/foo/AndroidTest.xml'', module_name = Some ''FooTests'',
        integrated_name = None, filters = Some {''p.Broken''}\<rparr>),
      \<lparr>stdin = [], emitted = [unsupported ''Broken'' MODULE]\<rparr>)"
proof -
  have h1: "get_test_info example_world example_translator ''x.Bar'' [FILE_PATH] quiet =
      (Returns None, quiet)"
    by code_simp
  have h2: "ref_type_to_func_map QUALIFIED_CLASS = Some find_test_by_class_name"
    by simp
  have h3: "find_test_by_class_name example_world example_translator ''x.Bar'' quiet =
      (Raises (TestWithNoModuleError ''No Parent Module Dir for: /r/x''), quiet)"
    by code_simp
  have h4: "get_test_reference_types ''x.Bar'' = [FILE_PATH] @ QUALIFIED_CLASS # [PACKAGE]"
    by code_simp
  have a: "get_test_info example_world example_translator ''x.Bar''
       [FILE_PATH, QUALIFIED_CLASS, PACKAGE] quiet =
       (Raises (TestWithNoModuleError ''No Parent Module Dir for: /r/x''), quiet)
     \<and> translate example_world example_translator [''x.Bar'', ''FooTests''] quiet =
       (Raises (TestWithNoModuleError ''No Parent Module Dir for: /r/x''), quiet)"
    using strategy_error_aborts_unless_key_error
      [OF h1 h2 h3, of "[PACKAGE]" "[''FooTests'']"] h4
    by simp
  have g1: "get_test_info example_world broken_translator ''Broken'' [INTEGRATION] quiet =
      (Returns None, quiet)"
    by code_simp
  have g2: "ref_type_to_func_map MODULE =
      Some (\<lambda>w self name s. (find_test_by_module_name self name, s))"
    by simp
  have k: "find_test_by_module_name broken_translator ''Broken'' = Raises (KeyError ''path'')"
    by code_simp
  then have g3: "(\<lambda>w self name s. (find_test_by_module_name self name, s))
      example_world broken_translator ''Broken'' quiet = (Raises (KeyError ''path''), quiet)"
    by simp
  have c: "get_test_info example_world broken_translator ''Broken'' [CLASS]
      (emit (unsupported ''Broken'' MODULE) quiet) =
     (Returns (Some \<lparr>rel_config = ''a/foo/AndroidTest.xml'', module_name = Some ''FooTests'',
        integrated_name = None, filters = Some {''p.Broken''}\<rparr>),
      \<lparr>stdin = [], emitted = [unsupported ''Broken'' MODULE]\<rparr>)"
    by code_simp
  have b: "get_test_info example_world broken_translator ''Broken''
       [INTEGRATION, MODULE, CLASS] quiet =
     (Returns (Some \<lparr>rel_config = ''a/foo/AndroidTest.xml'', module_name = Some ''FooTests'',
        integrated_name = None, filters = Some {''p.Broken''}\<rparr>),
      \<lparr>stdin = [], emitted = [unsupported ''Broken'' MODULE]\<rparr>)"
    using strategy_error_aborts_unless_key_error [OF g1 g2 g3, of "[CLASS]"] c
    by simp
  from a k b show ?thesis by simp
qed

section \<open>Translation\<close>




text \<open>
  C10. Translating an empty list of test strings returns an empty set of build
  targets and one run command, which holds the log level and no \<open>--test-info\<close>.
\<close>

theorem translate_nothing:
  "translate w self [] s =
     (Returns ({}, [RUN_CMD (''--log-level '' @ (if debug_enabled w then ''VERBOSE'' else ''WARN''))]),
      s)"
  by (simp add: translate_def io_bind_def result_bind_def flatten_by_module_def
      generate_build_targets_def generate_run_commands_def py_str_def)

theorem translate_nothing_witness:
  "translate example_world example_translator [] quiet =
     (Returns ({}, [''atest_tradefed.sh run commandAndExit template/local_min ''
        @ ''--template:map test=atest --log-level WARN'']), quiet)"
  using translate_nothing [of example_world example_translator quiet]
  by (simp add: example_world_def RUN_CMD_def)

section \<open>Build targets\<close>

text \<open>
  C7. The claim is that an option value \<open>pkg/Foo.apk\<close> gives the build target \<open>Foo\<close>, as
  the comment above \<open>APK_RE\<close> says ("Matches filename.apk in value bar/filename.apk"), next
  to one umbrella target, the Google one for a configuration under the Google
  integration directories, and a \<open>MODULES-IN-\<close> target for a descriptor with a module
  name. The pattern starts with \<open>^[^/]+\<close> and is used with \<open>match\<close>, so a value with a
  slash matches nowhere: the configuration of \<open>FooTests\<close> lists \<open>FooTests.apk\<close> and
  \<open>pkg/Foo.apk\<close>, and \<open>Foo\<close> is not among its targets. The umbrella target is chosen by
  looking for the common prefix of the Google directories inside the configuration's
  path; without Google directories that prefix is empty and found in every path, so the
  same descriptor then gets the Google umbrella target.
\<close>

theorem apk_with_directory_gives_no_target:
  "option_values example_world (path_join (root_dir example_translator) (rel_config foo_tests)) =
     Options [Some (Str ''FooTests.apk''), Some (Str ''pkg/Foo.apk'')]
   \<and> parse_build_targets example_world example_translator foo_tests =
     Returns {Str ''FooTests'', Str ''tradefed-all'', Str ''MODULES-IN-a-foo''}
   \<and> Str ''Foo'' \<notin> {Str ''FooTests'', Str ''tradefed-all'', Str ''MODULES-IN-a-foo''}
   \<and> parse_build_targets example_world (example_translator\<lparr>gtf_dirs := []\<rparr>) foo_tests =
     Returns {Str ''FooTests'', Str ''google-tradefed-all'', Str ''MODULES-IN-a-foo''}"
  by code_simp

end
